theory Spec2Isabelle
  imports Main
begin

section \<open>Values of the JavaScript runtime\<close>

text \<open>
  Object ids, usernames, dates and message texts are strings. A thrown \<open>Error\<close> is its
  name and its message; \<open>errToString\<close> is \<open>Error.prototype.toString\<close>, which the
  services reach through the template literal \<^verbatim>\<open>${error as Error}.message\<close>.
\<close>

type_synonym oid = string

datatype js_error = JsError (err_name: string) (err_message: string)

definition errToString :: "js_error \<Rightarrow> string" where
  "errToString e =
     (if err_name e = [] then err_message e
      else if err_message e = [] then err_name e
      else err_name e @ '': '' @ err_message e)"

text \<open>\<open>!!s\<close> for a string and for a field that may be missing from the request.\<close>

definition truthy :: "string \<Rightarrow> bool" where
  "truthy s = (s \<noteq> [])"

definition truthyField :: "string option \<Rightarrow> bool" where
  "truthyField f = (case f of None \<Rightarrow> False | Some s \<Rightarrow> truthy s)"

section \<open>The document store (users, messages, chats)\<close>

record user =
  u_id :: oid
  username :: string

record message =
  msg :: string
  msgFrom :: string
  msgDateTime :: string
  msgType :: string

record message_doc =
  m_id :: oid
  m_data :: message

record chat =
  c_id :: oid
  participants :: "string list"
  messages :: "oid list"

record store =
  users :: "user list"
  messageDocs :: "message_doc list"
  chats :: "chat list"
  created :: nat

text \<open>
  What a request cannot control: the ids the driver generates (indexed by the number of
  documents created so far), the clock, and which calls of the store throw. A fault is
  the error thrown; \<open>messageCreateFault\<close> is indexed by the position of the
  \<open>MessageModel.create\<close> call within the request. \<open>filterInId\<close> says whether the
  driver honours the \<open>participants\<close> condition of a filter object handed to
  \<open>findByIdAndUpdate\<close> in the place of the id.
\<close>

record env =
  genId :: "nat \<Rightarrow> oid"
  now :: string
  userFindFault :: "js_error option"
  messageCreateFault :: "nat \<Rightarrow> js_error option"
  chatCreateFault :: "js_error option"
  chatUpdateFault :: "js_error option"
  filterInId :: bool

definition UserModel_findOne :: "env \<Rightarrow> string \<Rightarrow> store \<Rightarrow> js_error + user option" where
  "UserModel_findOne ev uname st =
     (case userFindFault ev of
        Some e \<Rightarrow> Inl e
      | None \<Rightarrow> Inr (find (\<lambda>u. username u = uname) (users st)))"

definition MessageModel_create ::
  "env \<Rightarrow> nat \<Rightarrow> message \<Rightarrow> store \<Rightarrow> (js_error + message_doc) \<times> store" where
  "MessageModel_create ev k m st =
     (case messageCreateFault ev k of
        Some e \<Rightarrow> (Inl e, st)
      | None \<Rightarrow>
          (let d = \<lparr>m_id = genId ev (created st), m_data = m\<rparr>
           in (Inr d, st\<lparr>messageDocs := messageDocs st @ [d], created := Suc (created st)\<rparr>)))"

definition ChatModel_create ::
  "env \<Rightarrow> string list \<Rightarrow> oid list \<Rightarrow> store \<Rightarrow> (js_error + chat) \<times> store" where
  "ChatModel_create ev ps ms st =
     (case chatCreateFault ev of
        Some e \<Rightarrow> (Inl e, st)
      | None \<Rightarrow>
          (let c = \<lparr>c_id = genId ev (created st), participants = ps, messages = ms\<rparr>
           in (Inr c, st\<lparr>chats := chats st @ [c], created := Suc (created st)\<rparr>)))"

fun updateFirst :: "('a \<Rightarrow> bool) \<Rightarrow> ('a \<Rightarrow> 'a) \<Rightarrow> 'a list \<Rightarrow> 'a list" where
  "updateFirst P f [] = []"
| "updateFirst P f (x # xs) = (if P x then f x # xs else x # updateFirst P f xs)"

text \<open>\<open>findByIdAndUpdate\<close> with \<open>{ new: true }\<close>: the first matching chat is updated in
  place and the updated document is returned, \<open>null\<close> when none matches.\<close>

definition ChatModel_findByIdAndUpdate ::
  "env \<Rightarrow> (chat \<Rightarrow> bool) \<Rightarrow> (chat \<Rightarrow> chat) \<Rightarrow> store \<Rightarrow> (js_error + chat option) \<times> store" where
  "ChatModel_findByIdAndUpdate ev P f st =
     (case chatUpdateFault ev of
        Some e \<Rightarrow> (Inl e, st)
      | None \<Rightarrow>
          (case find P (chats st) of
             None \<Rightarrow> (Inr None, st)
           | Some c \<Rightarrow> (Inr (Some (f c)), st\<lparr>chats := updateFirst P f (chats st)\<rparr>)))"

section \<open>chat.service.ts\<close>

record create_chat_payload =
  p_participants :: "string list"
  p_messages :: "message list"

text \<open>
  \<open>Promise.all\<close> over \<open>messages.map(async msg => ...)\<close>: every \<open>MessageModel.create\<close> is
  issued, a rejected one does not stop the others, and the whole rejects with the first
  rejection. A stored document has no \<open>error\<close> field, so the callback's
  \<^verbatim>\<open>'error' in savedMessage\<close> branch is never taken.
\<close>

fun createAll ::
  "env \<Rightarrow> nat \<Rightarrow> message list \<Rightarrow> store \<Rightarrow> (js_error + message_doc) list \<times> store" where
  "createAll ev k [] st = ([], st)"
| "createAll ev k (m # ms) st =
     (case MessageModel_create ev k m st of
        (r, st1) \<Rightarrow> (case createAll ev (Suc k) ms st1 of (rs, st2) \<Rightarrow> (r # rs, st2)))"

fun firstRejection :: "('e + 'a) list \<Rightarrow> 'e option" where
  "firstRejection [] = None"
| "firstRejection (Inl e # rs) = Some e"
| "firstRejection (Inr d # rs) = firstRejection rs"

fun fulfilled :: "('e + 'a) list \<Rightarrow> 'a list" where
  "fulfilled [] = []"
| "fulfilled (Inl e # rs) = fulfilled rs"
| "fulfilled (Inr d # rs) = d # fulfilled rs"

definition saveChatError :: "js_error \<Rightarrow> string" where
  "saveChatError e = ''Error occurred while saving chat: '' @ errToString e @ ''.message''"

definition saveChat :: "env \<Rightarrow> create_chat_payload \<Rightarrow> store \<Rightarrow> (string + chat) \<times> store" where
  "saveChat ev chatPayload st =
     (case createAll ev 0 (p_messages chatPayload) st of
        (rs, st1) \<Rightarrow>
          (case firstRejection rs of
             Some e \<Rightarrow> (Inl (saveChatError e), st1)
           | None \<Rightarrow>
               (case ChatModel_create ev (p_participants chatPayload)
                       (map m_id (fulfilled rs)) st1 of
                  (Inl e, st2) \<Rightarrow> (Inl (saveChatError e), st2)
                | (Inr response, st2) \<Rightarrow> (Inr response, st2))))"

definition createMessageError :: "js_error \<Rightarrow> string" where
  "createMessageError e =
     ''Error occurred while creating message: '' @ errToString e @ ''.message''"

definition createMessage :: "env \<Rightarrow> message \<Rightarrow> store \<Rightarrow> (string + message_doc) \<times> store" where
  "createMessage ev messageData st =
     (case UserModel_findOne ev (msgFrom messageData) st of
        Inl e \<Rightarrow> (Inl (createMessageError e), st)
      | Inr None \<Rightarrow> (Inl (createMessageError (JsError ''Error'' ''User not found'')), st)
      | Inr (Some u) \<Rightarrow>
          (case MessageModel_create ev 0 messageData st of
             (Inl e, st1) \<Rightarrow> (Inl (createMessageError e), st1)
           | (Inr response, st1) \<Rightarrow> (Inr response, st1)))"

definition addMessageError :: "js_error \<Rightarrow> string" where
  "addMessageError e =
     ''Error occurred while adding the message to chat: '' @ errToString e @ ''.message''"

definition addMessageToChat :: "env \<Rightarrow> oid \<Rightarrow> oid \<Rightarrow> store \<Rightarrow> (string + chat) \<times> store" where
  "addMessageToChat ev chatId messageId st =
     (case ChatModel_findByIdAndUpdate ev (\<lambda>c. c_id c = chatId)
             (\<lambda>c. c\<lparr>messages := messages c @ [messageId]\<rparr>) st of
        (Inl e, st1) \<Rightarrow> (Inl (addMessageError e), st1)
      | (Inr None, st1) \<Rightarrow> (Inl (addMessageError (JsError ''Error'' ''Chat not found'')), st1)
      | (Inr (Some c), st1) \<Rightarrow> (Inr c, st1))"

definition addParticipantError :: "js_error \<Rightarrow> string" where
  "addParticipantError e =
     ''Error occurred while adding participant to chat: '' @ errToString e @ ''.message''"

text \<open>
  The first argument of \<open>findByIdAndUpdate\<close> is the object
  \<^verbatim>\<open>{ _id: chatId, participants: { $in: [user._id] } }\<close>: the chat is matched by its id and,
  where the driver honours the second condition, by already holding the user's id.
\<close>

definition addParticipantToChat :: "env \<Rightarrow> oid \<Rightarrow> string \<Rightarrow> store \<Rightarrow> (string + chat) \<times> store" where
  "addParticipantToChat ev chatId userId st =
     (case UserModel_findOne ev userId st of
        Inl e \<Rightarrow> (Inl (addParticipantError e), st)
      | Inr None \<Rightarrow> (Inl (addParticipantError (JsError ''Error'' ''User not found'')), st)
      | Inr (Some u) \<Rightarrow>
          (case ChatModel_findByIdAndUpdate ev
                  (\<lambda>c. c_id c = chatId \<and>
                        (if filterInId ev then u_id u \<in> set (participants c) else True))
                  (\<lambda>c. c\<lparr>participants := participants c @ [u_id u]\<rparr>) st of
             (Inl e, st1) \<Rightarrow> (Inl (addParticipantError e), st1)
           | (Inr None, st1) \<Rightarrow>
               (Inl (addParticipantError (JsError ''Error'' ''Chat not found'')), st1)
           | (Inr (Some c), st1) \<Rightarrow> (Inr c, st1)))"

section \<open>The socket server: connections, rooms and what each connection receives\<close>

type_synonym conn = nat

text \<open>What a response or a \<open>chatUpdate\<close> event carries as its chat: the value of
  \<open>populateDocument\<close> (a populated chat, or its \<open>{ error }\<close> object), or a chat document
  as the service returned it.\<close>

datatype 'p json = ErrorObj string | Populated 'p | ChatDoc chat

record 'p chat_update =
  cu_chat :: "'p json"
  cu_type :: string

datatype scope = AllConnections | Room string

record 'p server =
  connections :: "conn set"
  rooms :: "string \<Rightarrow> conn set"
  inbox :: "conn \<Rightarrow> 'p chat_update list"
  emitted :: "(scope \<times> 'p chat_update) list"

definition recipients :: "'p server \<Rightarrow> scope \<Rightarrow> conn set" where
  "recipients sock sc = (case sc of AllConnections \<Rightarrow> connections sock | Room r \<Rightarrow> rooms sock r)"

definition deliver :: "scope \<Rightarrow> 'p chat_update \<Rightarrow> 'p server \<Rightarrow> 'p server" where
  "deliver sc ev sock =
     sock\<lparr>inbox := (\<lambda>c. if c \<in> recipients sock sc then inbox sock c @ [ev] else inbox sock c),
          emitted := emitted sock @ [(sc, ev)]\<rparr>"

text \<open>\<^verbatim>\<open>socket.emit('chatUpdate', ev)\<close> and \<^verbatim>\<open>socket.to(room).emit('chatUpdate', ev)\<close>.\<close>

definition emit :: "'p chat_update \<Rightarrow> 'p server \<Rightarrow> 'p server" where
  "emit ev sock = deliver AllConnections ev sock"

definition emitTo :: "string \<Rightarrow> 'p chat_update \<Rightarrow> 'p server \<Rightarrow> 'p server" where
  "emitTo room ev sock = deliver (Room room) ev sock"

text \<open>\<open>conn.join\<close> and \<open>conn.leave\<close>: a room is a set of connections.\<close>

definition join :: "conn \<Rightarrow> string \<Rightarrow> 'p server \<Rightarrow> 'p server" where
  "join c room sock = sock\<lparr>rooms := (rooms sock)(room := insert c (rooms sock room))\<rparr>"

definition leave :: "conn \<Rightarrow> string \<Rightarrow> 'p server \<Rightarrow> 'p server" where
  "leave c room sock = sock\<lparr>rooms := (rooms sock)(room := rooms sock room - {c})\<rparr>"

text \<open>The listeners \<open>chatController\<close> registers on every connection.\<close>

definition joinChat :: "conn \<Rightarrow> string \<Rightarrow> 'p server \<Rightarrow> 'p server" where
  "joinChat c chatID sock = join c chatID sock"

definition leaveChat :: "conn \<Rightarrow> string option \<Rightarrow> 'p server \<Rightarrow> 'p server" where
  "leaveChat c chatID sock =
     (case chatID of
        None \<Rightarrow> sock
      | Some s \<Rightarrow> if truthy s then leave c s sock else sock)"

section \<open>The chat controller\<close>

text \<open>A request's body is an object, as the request types say, so the routes' test
  \<^verbatim>\<open>!req.body\<close> is never true; a field of the body may be missing.\<close>

datatype 'p body = Text string | Json "'p json"

record 'p response =
  status :: nat
  body :: "'p body"

definition send :: "nat \<Rightarrow> string \<Rightarrow> 'p response" where
  "send code text = \<lparr>status = code, body = Text text\<rparr>"

definition json :: "'p json \<Rightarrow> 'p response" where
  "json v = \<lparr>status = 200, body = Json v\<rparr>"

text \<open>\<open>populateDocument\<close> (utils/database.util) reads the store and returns the populated
  chat or an \<open>{ error }\<close> object; the routes take it as a parameter.\<close>

type_synonym 'p populate = "store \<Rightarrow> oid \<Rightarrow> string + 'p"

definition populated :: "string + 'p \<Rightarrow> 'p json" where
  "populated r = (case r of Inl e \<Rightarrow> ErrorObj e | Inr p \<Rightarrow> Populated p)"

record create_chat_request =
  cc_participants :: "string list option"
  cc_messages :: "message list option"

record add_message_request =
  am_chatId :: string
  am_msg :: "string option"
  am_msgFrom :: "string option"
  am_msgDateTime :: "string option"

record add_participant_request =
  ap_chatId :: string
  ap_participant :: "string option"

definition isCreateChatRequestValid :: "create_chat_request \<Rightarrow> bool" where
  "isCreateChatRequestValid req =
     ((case cc_participants req of None \<Rightarrow> False | Some ps \<Rightarrow> length ps > 0)
      \<and> cc_messages req \<noteq> None)"

definition isAddMessageRequestValid :: "add_message_request \<Rightarrow> bool" where
  "isAddMessageRequestValid req =
     (truthy (am_chatId req) \<and> truthyField (am_msg req) \<and> truthyField (am_msgFrom req))"

definition isAddParticipantRequestValid :: "add_participant_request \<Rightarrow> bool" where
  "isAddParticipantRequestValid req =
     (truthy (ap_chatId req) \<and> truthyField (ap_participant req))"

text \<open>The value of a field the validation has found present.\<close>

definition field :: "'a list option \<Rightarrow> 'a list" where
  "field f = (case f of None \<Rightarrow> [] | Some v \<Rightarrow> v)"

text \<open>The payload \<open>createChatRoute\<close> hands to \<open>saveChat\<close>:
  \<^verbatim>\<open>{ participants, messages }\<close>.\<close>

definition payload :: "create_chat_request \<Rightarrow> create_chat_payload" where
  "payload req =
     \<lparr>p_participants = field (cc_participants req), p_messages = field (cc_messages req)\<rparr>"

text \<open>The message \<open>addMessageToChatRoute\<close> hands to \<open>createMessage\<close>:
  \<^verbatim>\<open>{ msg, msgFrom, msgDateTime: msgDateTime || new Date(), type: 'direct' }\<close>.\<close>

definition directMessage :: "env \<Rightarrow> add_message_request \<Rightarrow> message" where
  "directMessage ev req =
     \<lparr>msg = field (am_msg req), msgFrom = field (am_msgFrom req),
      msgDateTime = (if truthyField (am_msgDateTime req)
                     then field (am_msgDateTime req) else now ev),
      msgType = ''direct''\<rparr>"

definition createChatRoute ::
  "'p populate \<Rightarrow> env \<Rightarrow> create_chat_request \<Rightarrow> store \<times> 'p server
     \<Rightarrow> 'p response \<times> store \<times> 'p server" where
  "createChatRoute populateDocument ev req s =
     (case s of (st, sock) \<Rightarrow>
        if \<not> isCreateChatRequestValid req
        then (send 400 ''Invalid request for creating chat'', st, sock)
        else
          (case saveChat ev (payload req) st of
             (Inl e, st1) \<Rightarrow>
               (send 500 (''Error occurred while creating a chat: '' @ e), st1, sock)
           | (Inr createdChat, st1) \<Rightarrow>
               (let populatedChat = populated (populateDocument st1 (c_id createdChat))
                in (json populatedChat, st1,
                    emit \<lparr>cu_chat = populatedChat, cu_type = ''created''\<rparr> sock))))"

definition addMessageToChatRoute ::
  "'p populate \<Rightarrow> env \<Rightarrow> add_message_request \<Rightarrow> store \<times> 'p server
     \<Rightarrow> 'p response \<times> store \<times> 'p server" where
  "addMessageToChatRoute populateDocument ev req s =
     (case s of (st, sock) \<Rightarrow>
        if \<not> isAddMessageRequestValid req
        then (send 400 ''Invalid request body'', st, sock)
        else
          (case createMessage ev (directMessage ev req) st of
             (Inl e, st1) \<Rightarrow>
               (send 500 (''Error occurred while adding a message to the chat: '' @ e), st1, sock)
           | (Inr newMessage, st1) \<Rightarrow>
               if \<not> truthy (m_id newMessage)
               then (send 500 (''Error occurred while adding a message to the chat: ''
                                 @ ''_id missing from new message''), st1, sock)
               else
                 (case addMessageToChat ev (am_chatId req) (m_id newMessage) st1 of
                    (Inl e, st2) \<Rightarrow>
                      (send 500 (''Error occurred while adding a message to the chat: '' @ e),
                       st2, sock)
                  | (Inr updatedChat, st2) \<Rightarrow>
                      (let populatedChat = populated (populateDocument st2 (c_id updatedChat))
                       in (json populatedChat, st2,
                           emitTo (am_chatId req)
                             \<lparr>cu_chat = populatedChat, cu_type = ''newMessage''\<rparr> sock)))))"

definition addParticipantToChatRoute ::
  "env \<Rightarrow> add_participant_request \<Rightarrow> store \<times> 'p server
     \<Rightarrow> 'p response \<times> store \<times> 'p server" where
  "addParticipantToChatRoute ev req s =
     (case s of (st, sock) \<Rightarrow>
        if \<not> isAddParticipantRequestValid req
        then (send 400 ''Invalid request body'', st, sock)
        else
          (case addParticipantToChat ev (ap_chatId req) (field (ap_participant req)) st of
             (Inl e, st1) \<Rightarrow>
               (send 500 (''Error occurred while adding participant to chat: '' @ e), st1, sock)
           | (Inr c, st1) \<Rightarrow>
               (json (ChatDoc c), st1,
                emit \<lparr>cu_chat = ChatDoc c, cu_type = ''newParticipant''\<rparr> sock)))"

section \<open>useNimGamePage\<close>

text \<open>
  \<open>Number(s)\<close> for the string \<open>value.slice(-1)\<close>, which has at most one character: a
  decimal digit is its value, the empty string and a white-space character are \<open>0\<close>, and
  anything else is \<open>NaN\<close> (\<open>None\<close>), with which every comparison is false.
\<close>

definition sliceLast :: "string \<Rightarrow> string" where
  "sliceLast s = (if s = [] then [] else [last s])"

definition isDigit :: "char \<Rightarrow> bool" where
  "isDigit c = (48 \<le> (of_char c :: nat) \<and> (of_char c :: nat) \<le> 57)"

definition isWhiteSpace :: "char \<Rightarrow> bool" where
  "isWhiteSpace c = ((of_char c :: nat) \<in> {9, 10, 11, 12, 13, 32, 160})"

definition toNumber :: "string \<Rightarrow> nat option" where
  "toNumber s =
     (case s of
        [] \<Rightarrow> Some 0
      | c # _ \<Rightarrow>
          if isDigit c then Some ((of_char c :: nat) - 48)
          else if isWhiteSpace c then Some 0
          else None)"

record nim_page =
  gameID :: string
  playerName :: string
  move :: "nat option"

record make_move =
  mm_gameID :: string
  mm_playerID :: string
  mm_numObjects :: nat

text \<open>\<open>useState<number | null>(null)\<close>.\<close>

definition useNimGamePage :: "string \<Rightarrow> string \<Rightarrow> nim_page" where
  "useNimGamePage gid uname = \<lparr>gameID = gid, playerName = uname, move = None\<rparr>"

text \<open>The \<open>makeMove\<close> event the handler emits, if any; \<open>if (move)\<close> is false for \<open>null\<close>
  and for \<open>0\<close>.\<close>

definition handleMakeMove :: "nim_page \<Rightarrow> make_move option" where
  "handleMakeMove pg =
     (case move pg of
        None \<Rightarrow> None
      | Some n \<Rightarrow>
          if n \<noteq> 0
          then Some \<lparr>mm_gameID = gameID pg, mm_playerID = playerName pg, mm_numObjects = n\<rparr>
          else None)"

definition handleInputChange :: "string \<Rightarrow> nim_page \<Rightarrow> nim_page" where
  "handleInputChange v pg =
     (case toNumber (sliceLast v) of
        None \<Rightarrow> pg
      | Some numObjects \<Rightarrow>
          if v \<noteq> [] \<and> numObjects \<ge> 1 \<and> numObjects \<le> 3
          then pg\<lparr>move := Some (if v = [] then 1 else numObjects)\<rparr>
          else pg)"

text \<open>What the user does on the page, and the \<open>makeMove\<close> events a session emits.\<close>

datatype nim_action = InputChange string | MakeMove

fun nimSession :: "nim_action list \<Rightarrow> nim_page \<Rightarrow> make_move list" where
  "nimSession [] pg = []"
| "nimSession (InputChange v # as) pg = nimSession as (handleInputChange v pg)"
| "nimSession (MakeMove # as) pg =
     (case handleMakeMove pg of
        None \<Rightarrow> nimSession as pg
      | Some e \<Rightarrow> e # nimSession as pg)"

section \<open>useAuth\<close>

datatype auth_type = Login | Signup

record auth_form =
  a_username :: string
  a_password :: string
  a_passwordConfirmation :: string
  a_err :: string

definition validateInputs :: "auth_type \<Rightarrow> auth_form \<Rightarrow> bool \<times> auth_form" where
  "validateInputs authType f =
     (if a_username f = [] \<or> a_password f = []
      then (False, f\<lparr>a_err := ''Please enter a valid username and passsword''\<rparr>)
      else if authType = Signup \<and> a_password f \<noteq> a_passwordConfirmation f
      then (True, f\<lparr>a_err := ''Password and Password confirmation do not match''\<rparr>)
      else (True, f))"

text \<open>The calls of userService: \<open>loginUser\<close> and \<open>createUser\<close> with
  \<open>{ username, password }\<close>. The service is a parameter: it returns the user or throws.\<close>

datatype api_call = LoginUser string string | CreateUser string string

record submit_result =
  sr_form :: auth_form
  sr_calls :: "api_call list"
  sr_user :: "user option"
  sr_navigate :: "string option"

definition handleSubmit ::
  "(api_call \<Rightarrow> js_error + user) \<Rightarrow> auth_type \<Rightarrow> auth_form \<Rightarrow> submit_result" where
  "handleSubmit api authType f =
     (case validateInputs authType f of
        (False, f1) \<Rightarrow> \<lparr>sr_form = f1, sr_calls = [], sr_user = None, sr_navigate = None\<rparr>
      | (True, f1) \<Rightarrow>
          (let call = (case authType of
                         Login \<Rightarrow> LoginUser (a_username f) (a_password f)
                       | Signup \<Rightarrow> CreateUser (a_username f) (a_password f))
           in case api call of
                Inl error \<Rightarrow>
                  \<lparr>sr_form = f1\<lparr>a_err := err_message error\<rparr>, sr_calls = [call],
                   sr_user = None, sr_navigate = None\<rparr>
              | Inr u \<Rightarrow>
                  \<lparr>sr_form = f1, sr_calls = [call], sr_user = Some u,
                   sr_navigate = Some ''/home''\<rparr>))"

section \<open>useUsersListPage\<close>

record user_update =
  uu_user :: user
  uu_type :: string

definition removeUserFromList :: "user list \<Rightarrow> user \<Rightarrow> user list" where
  "removeUserFromList prevUserList u =
     filter (\<lambda>currUser. username u \<noteq> username currUser) prevUserList"

definition addUserToList :: "user list \<Rightarrow> user \<Rightarrow> user list" where
  "addUserToList prevUserList u =
     (if list_ex (\<lambda>currUser. username currUser = username u) prevUserList
      then map (\<lambda>currUser. if username currUser = username u then u else currUser) prevUserList
      else u # prevUserList)"

text \<open>The listener of \<open>userUpdate\<close>: the error it throws, if any, and the list after it.\<close>

definition handleModifiedUserUpdate :: "user_update \<Rightarrow> user list \<Rightarrow> js_error option \<times> user list" where
  "handleModifiedUserUpdate userUpdate userList =
     (if uu_type userUpdate = ''created''
      then (None, addUserToList userList (uu_user userUpdate))
      else if uu_type userUpdate = ''deleted''
      then (None, removeUserFromList userList (uu_user userUpdate))
      else (Some (JsError ''Error'' ''Invalid user update type''), userList))"

section \<open>Sample data\<close>

text \<open>A store with two users and one chat that holds only the first of them, a server
  with three connections of which two have joined the chat's room, an environment in
  which no call of the store fails, and a \<open>populateDocument\<close> that resolves a chat's
  message ids to the stored messages.\<close>

definition ann :: user where
  "ann = \<lparr>u_id = ''u1'', username = ''ann''\<rparr>"

definition bob :: user where
  "bob = \<lparr>u_id = ''u2'', username = ''bob''\<rparr>"

definition ann2 :: user where
  "ann2 = \<lparr>u_id = ''u9'', username = ''ann''\<rparr>"

definition chat1 :: chat where
  "chat1 = \<lparr>c_id = ''c1'', participants = [''u1''], messages = []\<rparr>"

definition store0 :: store where
  "store0 = \<lparr>users = [ann, bob], messageDocs = [], chats = [chat1], created = 0\<rparr>"

definition server0 :: "(message list) server" where
  "server0 = \<lparr>connections = {1, 2, 3},
              rooms = (\<lambda>r. if r = ''c1'' then {1, 2} else {}),
              inbox = (\<lambda>c. []),
              emitted = []\<rparr>"

definition boom :: js_error where
  "boom = JsError ''MongoError'' ''connection lost''"

definition env0 :: env where
  "env0 = \<lparr>genId = (\<lambda>n. ''id'' @ replicate n (CHR ''+'')),
           now = ''2025-01-01'',
           userFindFault = None,
           messageCreateFault = (\<lambda>k. None),
           chatCreateFault = None,
           chatUpdateFault = None,
           filterInId = False\<rparr>"

definition populateChat :: "(message list) populate" where
  "populateChat st i =
     (case find (\<lambda>c. c_id c = i) (chats st) of
        None \<Rightarrow> Inl ''Chat not found''
      | Some c \<Rightarrow>
          Inr (map m_data (filter (\<lambda>d. m_id d \<in> set (messages c)) (messageDocs st))))"

text \<open>A \<open>populateDocument\<close> that fails: it returns its \<open>{ error }\<close> object.\<close>

definition populateFails :: "(message list) populate" where
  "populateFails st i = Inl ''Error when fetching and populating a document''"

definition hello :: add_message_request where
  "hello = \<lparr>am_chatId = ''c1'', am_msg = Some ''hello'', am_msgFrom = Some ''bob'',
            am_msgDateTime = None\<rparr>"

text \<open>Requests: a message from a user who is not a participant of the chat, one from
  an unknown sender, a participant to add, an unknown one, and a chat to create.\<close>

definition carl :: add_message_request where
  "carl = hello\<lparr>am_msgFrom := Some ''carl''\<rparr>"

definition addBob :: add_participant_request where
  "addBob = \<lparr>ap_chatId = ''c1'', ap_participant = Some ''bob''\<rparr>"

definition addCarl :: add_participant_request where
  "addCarl = \<lparr>ap_chatId = ''c1'', ap_participant = Some ''carl''\<rparr>"

definition badCreate :: create_chat_request where
  "badCreate = \<lparr>cc_participants = Some [], cc_messages = None\<rparr>"

definition goodCreate :: create_chat_request where
  "goodCreate = \<lparr>cc_participants = Some [''u1'', ''u2''],
                 cc_messages = Some [directMessage env0 hello]\<rparr>"

definition payload1 :: create_chat_payload where
  "payload1 = \<lparr>p_participants = [''u1'', ''u2''], p_messages = [directMessage env0 hello]\<rparr>"

text \<open>Environments in which creating a chat, or updating one, throws.\<close>

definition envCreateFails :: env where
  "envCreateFails = env0\<lparr>chatCreateFault := Some boom\<rparr>"

definition envUpdateFails :: env where
  "envUpdateFails = env0\<lparr>chatUpdateFault := Some boom\<rparr>"

text \<open>The store after the message of \<open>hello\<close> is created, after it is added to the chat,
  and after a chat is created with that message.\<close>

definition store1 :: store where
  "store1 = store0\<lparr>messageDocs := [\<lparr>m_id = ''id'', m_data = directMessage env0 hello\<rparr>],
                   created := 1\<rparr>"

definition store2 :: store where
  "store2 = store1\<lparr>chats := [chat1\<lparr>messages := [''id'']\<rparr>]\<rparr>"

definition chat2 :: chat where
  "chat2 = \<lparr>c_id = ''id+'', participants = [''u1'', ''u2''], messages = [''id'']\<rparr>"

definition store3 :: store where
  "store3 = store1\<lparr>chats := [chat1, chat2], created := 2\<rparr>"

text \<open>The invariant of the Nim page: the stored move is \<open>null\<close> or lies in \<open>[1, 3]\<close>.\<close>

definition moveOk :: "nim_page \<Rightarrow> bool" where
  "moveOk pg = (case move pg of None \<Rightarrow> True | Some n \<Rightarrow> 1 \<le> n \<and> n \<le> 3)"

section \<open>Facts about the store and the services\<close>

lemma find_updateFirst:
  "find P xs = Some x \<Longrightarrow> P (f x) \<Longrightarrow> find P (updateFirst P f xs) = Some (f x)"
  by (induction xs) (auto split: if_splits)

lemma length_updateFirst: "length (updateFirst P f xs) = length xs"
  by (induction xs) auto

lemma find_SomeD: "find P xs = Some x \<Longrightarrow> P x \<and> x \<in> set xs"
  by (induction xs) (auto split: if_splits)


lemma createMessage_InrD:
  "createMessage ev m st = (Inr d, st1) \<Longrightarrow>
     (\<exists>u \<in> set (users st). username u = msgFrom m)
     \<and> d = \<lparr>m_id = genId ev (created st), m_data = m\<rparr>
     \<and> st1 = st\<lparr>messageDocs := messageDocs st @ [d], created := Suc (created st)\<rparr>"
  by (auto simp: createMessage_def MessageModel_create_def UserModel_findOne_def Let_def
      split: option.splits sum.splits prod.splits dest: find_SomeD)

lemma createMessage_no_user:
  "\<not> (\<exists>u \<in> set (users st). username u = msgFrom m) \<Longrightarrow> \<exists>e. createMessage ev m st = (Inl e, st)"
  by (auto simp: createMessage_def UserModel_findOne_def find_None_iff
      split: option.splits sum.splits prod.splits dest: find_SomeD)


lemma addMessageToChat_InrD:
  assumes "addMessageToChat ev i mid st = (Inr c, st1)"
  shows "\<exists>c0. find (\<lambda>c. c_id c = i) (chats st) = Some c0
        \<and> c = c0\<lparr>messages := messages c0 @ [mid]\<rparr>
        \<and> c_id c = i
        \<and> st1 = st\<lparr>chats := updateFirst (\<lambda>c. c_id c = i)
                                (\<lambda>c. c\<lparr>messages := messages c @ [mid]\<rparr>) (chats st)\<rparr>
        \<and> find (\<lambda>c. c_id c = i) (chats st1) = Some c"
proof -
  let ?P = "\<lambda>c. c_id c = i"
  let ?f = "\<lambda>c. c\<lparr>messages := messages c @ [mid]\<rparr>"
  from assms obtain c0 where c0: "find ?P (chats st) = Some c0"
    and c: "c = ?f c0" and st1: "st1 = st\<lparr>chats := updateFirst ?P ?f (chats st)\<rparr>"
    by (auto simp: addMessageToChat_def ChatModel_findByIdAndUpdate_def
        split: option.splits sum.splits prod.splits)
  from c0 have "?P c0" by (auto dest: find_SomeD)
  then have "?P (?f c0)" by simp
  with c0 have "find ?P (updateFirst ?P ?f (chats st)) = Some (?f c0)"
    by (rule find_updateFirst)
  with c0 c st1 \<open>?P c0\<close> show ?thesis by simp
qed

lemma addParticipantToChat_InlD:
  "addParticipantToChat ev i uname st = (Inl e, st1) \<Longrightarrow> st1 = st"
  by (auto simp: addParticipantToChat_def ChatModel_findByIdAndUpdate_def UserModel_findOne_def
      split: option.splits sum.splits prod.splits)

section \<open>Facts about delivery\<close>

lemma deliver_inbox:
  "inbox (deliver sc ev sock) k = (if k \<in> recipients sock sc then inbox sock k @ [ev] else inbox sock k)"
  by (simp add: deliver_def)

lemma deliver_emitted: "emitted (deliver sc ev sock) = emitted sock @ [(sc, ev)]"
  by (simp add: deliver_def)

lemma deliver_neq: "deliver sc ev sock \<noteq> sock"
proof
  assume "deliver sc ev sock = sock"
  then have "emitted (deliver sc ev sock) = emitted sock" by simp
  then show False by (simp add: deliver_emitted)
qed

section \<open>Joining and leaving a chat room\<close>

text \<open>
  Claim C7, as stated, fails for the empty chat id: \<open>joinChat\<close> joins the room of any
  string, \<open>leaveChat\<close> leaves only when \<open>if (chatID)\<close> holds, and the empty string is
  falsy. A connection that joins the room \<open>''\<close> and then asks to leave it stays in it.
\<close>

theorem join_then_leave_empty_id_counterexample:
  "3 \<notin> rooms server0 []
   \<and> 3 \<in> rooms (leaveChat 3 (Some []) (joinChat 3 [] server0)) []"
  by (simp add: server0_def joinChat_def leaveChat_def join_def truthy_def)

text \<open>
  Claim C7, amended. For every connection \<open>c\<close> and chat id \<open>s\<close>: joining the room of
  \<open>s\<close> twice is joining it once; leaving a room \<open>c\<close> is not in changes nothing; after
  \<open>joinChat(s)\<close> and then \<open>leaveChat(s)\<close>, for \<open>s\<close> not the empty string, \<open>c\<close> is not in
  the room of \<open>s\<close>; and a \<open>leaveChat\<close> with an undefined or an empty chat id changes no
  room.
\<close>

theorem chat_room_join_leave:
  "joinChat c s (joinChat c s sock) = joinChat c s sock
   \<and> (c \<notin> rooms sock s \<longrightarrow> leaveChat c (Some s) sock = sock)
   \<and> (s \<noteq> [] \<longrightarrow> c \<notin> rooms (leaveChat c (Some s) (joinChat c s sock)) s)
   \<and> leaveChat c None sock = sock
   \<and> leaveChat c (Some []) sock = sock"
proof (intro conjI impI)
  have "insert c (insert c (rooms sock s)) = insert c (rooms sock s)" by simp
  then show "joinChat c s (joinChat c s sock) = joinChat c s sock"
    by (simp add: joinChat_def join_def)
next
  assume "c \<notin> rooms sock s"
  then have "(rooms sock)(s := rooms sock s - {c}) = rooms sock" by auto
  then have "leave c s sock = sock" by (simp add: leave_def)
  then show "leaveChat c (Some s) sock = sock"
    by (simp add: leaveChat_def)
next
  assume "s \<noteq> []"
  then have "leaveChat c (Some s) (joinChat c s sock) = leave c s (join c s sock)"
    by (simp add: leaveChat_def joinChat_def truthy_def)
  moreover have "c \<notin> rooms (leave c s (join c s sock)) s"
    by (simp add: leave_def join_def)
  ultimately show "c \<notin> rooms (leaveChat c (Some s) (joinChat c s sock)) s" by simp
next
  show "leaveChat c None sock = sock" by (simp add: leaveChat_def)
next
  show "leaveChat c (Some []) sock = sock" by (simp add: leaveChat_def truthy_def)
qed

theorem chat_room_join_leave_witness:
  "leaveChat 3 (Some ''c1'') server0 = server0
   \<and> 3 \<in> rooms (joinChat 3 ''c1'' server0) ''c1''
   \<and> 3 \<notin> rooms (leaveChat 3 (Some ''c1'') (joinChat 3 ''c1'' server0)) ''c1''"
  using chat_room_join_leave [of 3 "''c1''" server0]
  by (simp add: server0_def joinChat_def join_def)

section \<open>Adding a participant who is already in the chat\<close>

text \<open>
  Claim C1 says that adding a participant who is already in the chat is rejected and
  leaves the number of participants unchanged. \<open>addParticipantToChat\<close> has no such
  rejection: its filter asks for the user's id to be among the participants
  (\<open>$in\<close>) where a guard against duplicates would ask for the opposite, and the update
  pushes the id again. In \<open>store0\<close> the chat \<open>c1\<close> holds \<open>ann\<close>; adding her again returns
  the chat with her id twice, whether or not the driver honours the filter.
\<close>

theorem addParticipant_duplicate_is_appended:
  "fst (addParticipantToChat env0 ''c1'' ''ann'' store0)
     = Inr \<lparr>c_id = ''c1'', participants = [''u1'', ''u1''], messages = []\<rparr>
   \<and> fst (addParticipantToChat (env0\<lparr>filterInId := True\<rparr>) ''c1'' ''ann'' store0)
     = Inr \<lparr>c_id = ''c1'', participants = [''u1'', ''u1''], messages = []\<rparr>"
  by (simp add: addParticipantToChat_def ChatModel_findByIdAndUpdate_def UserModel_findOne_def
      env0_def store0_def chat1_def ann_def bob_def)

section \<open>The runs of \<open>addMessageToChatRoute\<close>\<close>

lemma addMessageRoute_invalid:
  "\<not> isAddMessageRequestValid req \<Longrightarrow>
     addMessageToChatRoute pd ev req (st, sock) = (send 400 ''Invalid request body'', st, sock)"
  by (simp add: addMessageToChatRoute_def)

lemma addMessageRoute_createMessage_fails:
  "isAddMessageRequestValid req \<Longrightarrow> createMessage ev (directMessage ev req) st = (Inl e, st1) \<Longrightarrow>
     addMessageToChatRoute pd ev req (st, sock)
       = (send 500 (''Error occurred while adding a message to the chat: '' @ e), st1, sock)"
  by (simp add: addMessageToChatRoute_def)

lemma addMessageRoute_no_id:
  "isAddMessageRequestValid req \<Longrightarrow> createMessage ev (directMessage ev req) st = (Inr d, st1) \<Longrightarrow>
   \<not> truthy (m_id d) \<Longrightarrow>
     addMessageToChatRoute pd ev req (st, sock)
       = (send 500 (''Error occurred while adding a message to the chat: ''
                     @ ''_id missing from new message''), st1, sock)"
  by (simp add: addMessageToChatRoute_def)

lemma addMessageRoute_update_fails:
  "isAddMessageRequestValid req \<Longrightarrow> createMessage ev (directMessage ev req) st = (Inr d, st1) \<Longrightarrow>
   truthy (m_id d) \<Longrightarrow> addMessageToChat ev (am_chatId req) (m_id d) st1 = (Inl e, st2) \<Longrightarrow>
     addMessageToChatRoute pd ev req (st, sock)
       = (send 500 (''Error occurred while adding a message to the chat: '' @ e), st2, sock)"
  by (simp add: addMessageToChatRoute_def)

lemma addMessageRoute_success:
  "isAddMessageRequestValid req \<Longrightarrow> createMessage ev (directMessage ev req) st = (Inr d, st1) \<Longrightarrow>
   truthy (m_id d) \<Longrightarrow> addMessageToChat ev (am_chatId req) (m_id d) st1 = (Inr c, st2) \<Longrightarrow>
     addMessageToChatRoute pd ev req (st, sock)
       = (json (populated (pd st2 (c_id c))), st2,
          emitTo (am_chatId req)
            \<lparr>cu_chat = populated (pd st2 (c_id c)), cu_type = ''newMessage''\<rparr> sock)"
  by (simp add: addMessageToChatRoute_def Let_def)

text \<open>When \<open>populateDocument\<close> returns its error object the route does not look for it:
  it answers 200 with it and emits it to the room.\<close>

lemma addMessageRoute_populate_error:
  "isAddMessageRequestValid req \<Longrightarrow> createMessage ev (directMessage ev req) st = (Inr d, sta) \<Longrightarrow>
   truthy (m_id d) \<Longrightarrow> addMessageToChat ev (am_chatId req) (m_id d) sta = (Inr c, stb) \<Longrightarrow>
   pd stb (c_id c) = Inl e \<Longrightarrow>
     addMessageToChatRoute pd ev req (st, sock)
       = (\<lparr>status = 200, body = Json (ErrorObj e)\<rparr>, stb,
          emitTo (am_chatId req) \<lparr>cu_chat = ErrorObj e, cu_type = ''newMessage''\<rparr> sock)"
  by (simp add: addMessageRoute_success json_def populated_def)

text \<open>The message of a valid request, field by field.\<close>

lemma directMessage_fields:
  assumes "isAddMessageRequestValid req"
  shows "\<exists>m f. am_msg req = Some m \<and> am_msgFrom req = Some f
           \<and> directMessage ev req
              = \<lparr>msg = m, msgFrom = f,
                 msgDateTime = (case am_msgDateTime req of
                                  None \<Rightarrow> now ev
                                | Some t \<Rightarrow> if t = [] then now ev else t),
                 msgType = ''direct''\<rparr>"
proof -
  from assms obtain m f where "am_msg req = Some m" "am_msgFrom req = Some f"
    by (auto simp: isAddMessageRequestValid_def truthyField_def split: option.splits)
  then show ?thesis
    by (auto simp: directMessage_def field_def truthyField_def truthy_def split: option.splits)
qed

text \<open>Every run of the route is one of the five.\<close>

lemma addMessageRoute_cases:
  obtains
    (invalid) "\<not> isAddMessageRequestValid req"
  | (create_fails) e st1 where "isAddMessageRequestValid req"
      "createMessage ev (directMessage ev req) st = (Inl e, st1)"
  | (no_id) d st1 where "isAddMessageRequestValid req"
      "createMessage ev (directMessage ev req) st = (Inr d, st1)" "\<not> truthy (m_id d)"
  | (update_fails) d st1 e st2 where "isAddMessageRequestValid req"
      "createMessage ev (directMessage ev req) st = (Inr d, st1)" "truthy (m_id d)"
      "addMessageToChat ev (am_chatId req) (m_id d) st1 = (Inl e, st2)"
  | (success) d st1 c st2 where "isAddMessageRequestValid req"
      "createMessage ev (directMessage ev req) st = (Inr d, st1)" "truthy (m_id d)"
      "addMessageToChat ev (am_chatId req) (m_id d) st1 = (Inr c, st2)"
proof (cases "isAddMessageRequestValid req")
  case False
  then show ?thesis by (rule invalid)
next
  case valid: True
  obtain r st1 where cm: "createMessage ev (directMessage ev req) st = (r, st1)"
    by (cases "createMessage ev (directMessage ev req) st")
  show ?thesis
  proof (cases r)
    case (Inl e)
    with valid cm show ?thesis by (auto intro: create_fails)
  next
    case (Inr d)
    show ?thesis
    proof (cases "truthy (m_id d)")
      case False
      with valid cm Inr show ?thesis by (auto intro: no_id)
    next
      case True
      obtain r2 st2 where am: "addMessageToChat ev (am_chatId req) (m_id d) st1 = (r2, st2)"
        by (cases "addMessageToChat ev (am_chatId req) (m_id d) st1")
      show ?thesis
      proof (cases r2)
        case (Inl e)
        with valid cm Inr True am show ?thesis by (auto intro: update_fails)
      next
        case r2: (Inr c)
        with valid cm Inr True am show ?thesis by (auto intro: success)
      qed
    qed
  qed
qed

lemma send_simps: "status (send n t) = n" "body (send n t) = Text t"
  by (simp_all add: send_def)

lemma json_simps: "status (json v) = 200" "body (json v) = Json v"
  by (simp_all add: json_def)

lemma populated_eq: "populated r = Populated p \<longleftrightarrow> r = Inr p"
  by (cases r) (simp_all add: populated_def)

lemma emitTo_inbox:
  "inbox (emitTo r ev sock) k = (if k \<in> rooms sock r then inbox sock k @ [ev] else inbox sock k)"
  by (simp add: emitTo_def deliver_inbox recipients_def)

lemma emitTo_emitted: "emitted (emitTo r ev sock) = emitted sock @ [(Room r, ev)]"
  by (simp add: emitTo_def deliver_emitted)

lemma emit_inbox:
  "inbox (emit ev sock) k = (if k \<in> connections sock then inbox sock k @ [ev] else inbox sock k)"
  by (simp add: emit_def deliver_inbox recipients_def)

lemma emit_emitted: "emitted (emit ev sock) = emitted sock @ [(AllConnections, ev)]"
  by (simp add: emit_def deliver_emitted)

section \<open>A new message is persisted, then announced to the chat's room\<close>

text \<open>
  What a run of the route that answers with the populated chat \<open>p\<close> has done, and what
  any run that emits has done.
\<close>


lemma addMessageRoute_effects:
  assumes run: "addMessageToChatRoute pd ev req (st, sock) = (res, st', sock')"
  shows "(body res = Json (Populated p) \<longrightarrow>
           (\<exists>c0. find (\<lambda>c. c_id c = am_chatId req) (chats st) = Some c0
              \<and> find (\<lambda>c. c_id c = am_chatId req) (chats st')
                  = Some (c0\<lparr>messages := messages c0 @ [genId ev (created st)]\<rparr>))
           \<and> messageDocs st'
               = messageDocs st @ [\<lparr>m_id = genId ev (created st), m_data = directMessage ev req\<rparr>]
           \<and> pd st' (am_chatId req) = Inr p
           \<and> emitted sock'
               = emitted sock
                 @ [(Room (am_chatId req), \<lparr>cu_chat = Populated p, cu_type = ''newMessage''\<rparr>)]
           \<and> (\<forall>k. inbox sock' k
                  = (if k \<in> rooms sock (am_chatId req)
                     then inbox sock k @ [\<lparr>cu_chat = Populated p, cu_type = ''newMessage''\<rparr>]
                     else inbox sock k)))
       \<and> (sock' \<noteq> sock \<longrightarrow>
           messageDocs st'
               = messageDocs st @ [\<lparr>m_id = genId ev (created st), m_data = directMessage ev req\<rparr>]
           \<and> (\<exists>c \<in> set (chats st'). c_id c = am_chatId req
                 \<and> genId ev (created st) \<in> set (messages c)))"
proof (cases rule: addMessageRoute_cases [where req = req and ev = ev and st = st])
  case invalid
  with run show ?thesis by (auto simp: addMessageRoute_invalid send_simps)
next
  case (create_fails e st1)
  with run show ?thesis by (auto simp: addMessageRoute_createMessage_fails send_simps)
next
  case (no_id d st1)
  with run show ?thesis by (auto simp: addMessageRoute_no_id send_simps)
next
  case (update_fails d st1 e st2)
  with run show ?thesis by (auto simp: addMessageRoute_update_fails send_simps)
next
  case (success d st1 c st2)
  let ?d = "\<lparr>m_id = genId ev (created st), m_data = directMessage ev req\<rparr>"
  from success(2) have d: "d = ?d"
    and st1: "st1 = st\<lparr>messageDocs := messageDocs st @ [d], created := Suc (created st)\<rparr>"
    by (auto dest: createMessage_InrD)
  from addMessageToChat_InrD [OF success(4)] obtain c0 where
    c0: "find (\<lambda>c. c_id c = am_chatId req) (chats st1) = Some c0"
    and c: "c = c0\<lparr>messages := messages c0 @ [m_id d]\<rparr>" and cid: "c_id c = am_chatId req"
    and st2: "st2 = st1\<lparr>chats := updateFirst (\<lambda>c. c_id c = am_chatId req)
                                (\<lambda>c. c\<lparr>messages := messages c @ [m_id d]\<rparr>) (chats st1)\<rparr>"
    and found: "find (\<lambda>c. c_id c = am_chatId req) (chats st2) = Some c"
    by blast
  have "addMessageToChatRoute pd ev req (st, sock)
       = (json (populated (pd st2 (c_id c))), st2,
          emitTo (am_chatId req)
            \<lparr>cu_chat = populated (pd st2 (c_id c)), cu_type = ''newMessage''\<rparr> sock)"
    using success by (rule addMessageRoute_success)
  with run have res: "res = json (populated (pd st2 (am_chatId req)))" and st': "st' = st2"
    and sock': "sock' = emitTo (am_chatId req)
            \<lparr>cu_chat = populated (pd st2 (am_chatId req)), cu_type = ''newMessage''\<rparr> sock"
    by (auto simp: cid)
  have docs: "messageDocs st' = messageDocs st @ [?d]"
    by (simp add: st' st2 st1 d)
  have chat0: "find (\<lambda>c. c_id c = am_chatId req) (chats st) = Some c0"
    using c0 by (simp add: st1)
  have chat': "find (\<lambda>c. c_id c = am_chatId req) (chats st')
                  = Some (c0\<lparr>messages := messages c0 @ [genId ev (created st)]\<rparr>)"
    using found by (simp add: st' c d)
  have inchat: "\<exists>c \<in> set (chats st'). c_id c = am_chatId req
                 \<and> genId ev (created st) \<in> set (messages c)"
    using find_SomeD [OF chat'] by (intro bexI [of _ "c0\<lparr>messages := messages c0 @ [genId ev (created st)]\<rparr>"]) auto
  show ?thesis
  proof (intro conjI impI)
    assume b: "body res = Json (Populated p)"
    then have p: "pd st2 (am_chatId req) = Inr p"
      by (simp add: res json_simps populated_eq)
    show "\<exists>c0. find (\<lambda>c. c_id c = am_chatId req) (chats st) = Some c0
              \<and> find (\<lambda>c. c_id c = am_chatId req) (chats st')
                  = Some (c0\<lparr>messages := messages c0 @ [genId ev (created st)]\<rparr>)"
      using chat0 chat' by blast
    show "messageDocs st' = messageDocs st @ [?d]" by (rule docs)
    show "pd st' (am_chatId req) = Inr p" using p by (simp add: st')
    show "emitted sock' = emitted sock
                 @ [(Room (am_chatId req), \<lparr>cu_chat = Populated p, cu_type = ''newMessage''\<rparr>)]"
      by (simp add: sock' emitTo_emitted p populated_def)
    show "\<forall>k. inbox sock' k
                  = (if k \<in> rooms sock (am_chatId req)
                     then inbox sock k @ [\<lparr>cu_chat = Populated p, cu_type = ''newMessage''\<rparr>]
                     else inbox sock k)"
      by (simp add: sock' emitTo_inbox p populated_def)
  next
    show "messageDocs st' = messageDocs st @ [?d]" by (rule docs)
    show "\<exists>c \<in> set (chats st'). c_id c = am_chatId req
                 \<and> genId ev (created st) \<in> set (messages c)" by (rule inchat)
  qed
qed

text \<open>
  When \<open>addMessageToChatRoute\<close> answers with the populated chat \<open>p\<close>, the message of the
  request (its \<open>msg\<close> and \<open>msgFrom\<close>, its date or else the clock's, type \<open>direct\<close>) is
  in the store and at the end of the chat's message sequence, \<open>p\<close> is what
  \<open>populateDocument\<close> returns for that chat on the store after the update, exactly one
  event is emitted, a \<open>chatUpdate\<close> of type \<open>newMessage\<close> that carries \<open>p\<close> and is scoped
  to the room named by the chat id, and every connection in that room receives it exactly
  once while no other connection receives anything. Whenever the route emits at all, the
  message has been persisted and added to the chat.
\<close>

theorem addMessage_persists_then_emits_once:
  assumes run: "addMessageToChatRoute pd ev req (st, sock) = (res, st', sock')"
  shows "(body res = Json (Populated p) \<longrightarrow>
           (\<exists>m f. am_msg req = Some m \<and> am_msgFrom req = Some f
              \<and> messageDocs st'
                  = messageDocs st
                    @ [\<lparr>m_id = genId ev (created st),
                        m_data = \<lparr>msg = m, msgFrom = f,
                                   msgDateTime = (case am_msgDateTime req of
                                                    None \<Rightarrow> now ev
                                                  | Some t \<Rightarrow> if t = [] then now ev else t),
                                   msgType = ''direct''\<rparr>\<rparr>])
           \<and> (\<exists>c0. find (\<lambda>c. c_id c = am_chatId req) (chats st) = Some c0
              \<and> find (\<lambda>c. c_id c = am_chatId req) (chats st')
                  = Some (c0\<lparr>messages := messages c0 @ [genId ev (created st)]\<rparr>))
           \<and> pd st' (am_chatId req) = Inr p
           \<and> emitted sock'
               = emitted sock
                 @ [(Room (am_chatId req), \<lparr>cu_chat = Populated p, cu_type = ''newMessage''\<rparr>)]
           \<and> (\<forall>k. inbox sock' k
                  = (if k \<in> rooms sock (am_chatId req)
                     then inbox sock k @ [\<lparr>cu_chat = Populated p, cu_type = ''newMessage''\<rparr>]
                     else inbox sock k)))
       \<and> (sock' \<noteq> sock \<longrightarrow>
           (\<exists>m f. am_msg req = Some m \<and> am_msgFrom req = Some f
              \<and> messageDocs st'
                  = messageDocs st
                    @ [\<lparr>m_id = genId ev (created st),
                        m_data = \<lparr>msg = m, msgFrom = f,
                                   msgDateTime = (case am_msgDateTime req of
                                                    None \<Rightarrow> now ev
                                                  | Some t \<Rightarrow> if t = [] then now ev else t),
                                   msgType = ''direct''\<rparr>\<rparr>])
           \<and> (\<exists>c \<in> set (chats st'). c_id c = am_chatId req
                 \<and> genId ev (created st) \<in> set (messages c)))"
proof -
  note facts = addMessageRoute_effects [OF run, of p]
  have docs: "\<exists>m f. am_msg req = Some m \<and> am_msgFrom req = Some f
              \<and> messageDocs st'
                  = messageDocs st
                    @ [\<lparr>m_id = genId ev (created st),
                        m_data = \<lparr>msg = m, msgFrom = f,
                                   msgDateTime = (case am_msgDateTime req of
                                                    None \<Rightarrow> now ev
                                                  | Some t \<Rightarrow> if t = [] then now ev else t),
                                   msgType = ''direct''\<rparr>\<rparr>]"
    if persisted: "messageDocs st'
        = messageDocs st @ [\<lparr>m_id = genId ev (created st), m_data = directMessage ev req\<rparr>]"
  proof -
    have valid: "isAddMessageRequestValid req"
    proof (rule ccontr)
      assume "\<not> isAddMessageRequestValid req"
      with run have "st' = st" by (simp add: addMessageRoute_invalid)
      with persisted show False by simp
    qed
    from directMessage_fields [OF valid, of ev] persisted show ?thesis by auto
  qed
  from facts docs show ?thesis by blast
qed

section \<open>The sample request \<open>hello\<close>, run\<close>

lemmas sample_defs = env0_def store0_def server0_def chat1_def ann_def bob_def hello_def boom_def

lemmas addMessage_defs =
  addMessageToChatRoute_def isAddMessageRequestValid_def directMessage_def createMessage_def
  addMessageToChat_def UserModel_findOne_def MessageModel_create_def
  ChatModel_findByIdAndUpdate_def truthy_def truthyField_def field_def populated_def
  populateChat_def json_def send_def emitTo_def deliver_def recipients_def errToString_def
  createMessageError_def addMessageError_def Let_def

lemma hello_valid: "isAddMessageRequestValid hello"
  by (simp add: isAddMessageRequestValid_def truthy_def truthyField_def hello_def)

lemma hello_createMessage:
  "createMessage env0 (directMessage env0 hello) store0
     = (Inr \<lparr>m_id = ''id'', m_data = directMessage env0 hello\<rparr>, store1)"
  by (simp add: createMessage_def UserModel_findOne_def MessageModel_create_def directMessage_def
      field_def truthyField_def store1_def Let_def sample_defs)

lemma hello_addMessageToChat:
  "addMessageToChat env0 ''c1'' ''id'' store1 = (Inr (chat1\<lparr>messages := [''id'']\<rparr>), store2)"
  by (simp add: addMessageToChat_def ChatModel_findByIdAndUpdate_def store1_def store2_def
      sample_defs)

lemma hello_populate: "populateChat store2 ''c1'' = Inr [directMessage env0 hello]"
  by (simp add: populateChat_def store2_def store1_def sample_defs)

lemma hello_run:
  "addMessageToChatRoute populateChat env0 hello (store0, server0)
     = (json (Populated [directMessage env0 hello]), store2,
        emitTo ''c1'' \<lparr>cu_chat = Populated [directMessage env0 hello], cu_type = ''newMessage''\<rparr>
          server0)"
proof -
  have "addMessageToChatRoute populateChat env0 hello (store0, server0)
     = (json (populated (populateChat store2 (c_id (chat1\<lparr>messages := [''id'']\<rparr>)))), store2,
        emitTo (am_chatId hello)
          \<lparr>cu_chat = populated (populateChat store2 (c_id (chat1\<lparr>messages := [''id'']\<rparr>))),
           cu_type = ''newMessage''\<rparr> server0)"
    by (rule addMessageRoute_success [OF hello_valid hello_createMessage])
      (simp_all add: truthy_def hello_addMessageToChat hello_def)
  moreover have "c_id (chat1\<lparr>messages := [''id'']\<rparr>) = ''c1''" "am_chatId hello = ''c1''"
    by (simp_all add: chat1_def hello_def)
  ultimately show ?thesis
    by (simp add: hello_populate populated_def)
qed

lemma directMessage_hello:
  "directMessage env0 hello
     = \<lparr>msg = ''hello'', msgFrom = ''bob'', msgDateTime = ''2025-01-01'', msgType = ''direct''\<rparr>"
  by (simp add: directMessage_def field_def truthyField_def hello_def env0_def)

lemma hello_populateFails_run:
  "addMessageToChatRoute populateFails env0 hello (store0, server0)
     = (\<lparr>status = 200, body = Json (ErrorObj ''Error when fetching and populating a document'')\<rparr>,
        store2,
        emitTo (am_chatId hello)
          \<lparr>cu_chat = ErrorObj ''Error when fetching and populating a document'',
           cu_type = ''newMessage''\<rparr> server0)"
  by (rule addMessageRoute_populate_error [OF hello_valid hello_createMessage])
     (simp_all add: truthy_def hello_addMessageToChat hello_def populateFails_def)

theorem addMessage_persists_then_emits_once_witness:
  "body (fst (addMessageToChatRoute populateChat env0 hello (store0, server0)))
     = Json (Populated [\<lparr>msg = ''hello'', msgFrom = ''bob'', msgDateTime = ''2025-01-01'',
                          msgType = ''direct''\<rparr>])
   \<and> messageDocs (fst (snd (addMessageToChatRoute populateChat env0 hello (store0, server0))))
     = [\<lparr>m_id = ''id'',
         m_data = \<lparr>msg = ''hello'', msgFrom = ''bob'', msgDateTime = ''2025-01-01'',
                    msgType = ''direct''\<rparr>\<rparr>]
   \<and> emitted (snd (snd (addMessageToChatRoute populateChat env0 hello (store0, server0))))
     = [(Room ''c1'',
         \<lparr>cu_chat = Populated [\<lparr>msg = ''hello'', msgFrom = ''bob'', msgDateTime = ''2025-01-01'',
                                  msgType = ''direct''\<rparr>],
          cu_type = ''newMessage''\<rparr>)]
   \<and> inbox (snd (snd (addMessageToChatRoute populateChat env0 hello (store0, server0)))) 1
     = [\<lparr>cu_chat = Populated [\<lparr>msg = ''hello'', msgFrom = ''bob'', msgDateTime = ''2025-01-01'',
                                 msgType = ''direct''\<rparr>],
         cu_type = ''newMessage''\<rparr>]
   \<and> inbox (snd (snd (addMessageToChatRoute populateChat env0 hello (store0, server0)))) 2
     = [\<lparr>cu_chat = Populated [\<lparr>msg = ''hello'', msgFrom = ''bob'', msgDateTime = ''2025-01-01'',
                                 msgType = ''direct''\<rparr>],
         cu_type = ''newMessage''\<rparr>]
   \<and> inbox (snd (snd (addMessageToChatRoute populateChat env0 hello (store0, server0)))) 3 = []"
proof -
  let ?m = "\<lparr>msg = ''hello'', msgFrom = ''bob'', msgDateTime = ''2025-01-01'', msgType = ''direct''\<rparr>"
  let ?ev = "\<lparr>cu_chat = Populated [?m], cu_type = ''newMessage''\<rparr>"
  have run: "addMessageToChatRoute populateChat env0 hello (store0, server0)
     = (json (Populated [?m]), store2, emitTo ''c1'' ?ev server0)"
    using hello_run by (simp add: directMessage_hello)
  have b: "body (json (Populated [?m]) :: (message list) response) = Json (Populated [?m])"
    by (simp add: json_def)
  note th = addMessage_persists_then_emits_once [OF run, of "[?m]", THEN conjunct1, THEN mp, OF b]
  from th obtain m f where mf: "am_msg hello = Some m" "am_msgFrom hello = Some f"
    and docs: "messageDocs store2
                  = messageDocs store0
                    @ [\<lparr>m_id = genId env0 (created store0),
                        m_data = \<lparr>msg = m, msgFrom = f,
                                   msgDateTime = (case am_msgDateTime hello of
                                                    None \<Rightarrow> now env0
                                                  | Some t \<Rightarrow> if t = [] then now env0 else t),
                                   msgType = ''direct''\<rparr>\<rparr>]"
    by blast
  from mf docs have d: "messageDocs store2 = [\<lparr>m_id = ''id'', m_data = ?m\<rparr>]"
    by (simp add: hello_def env0_def store0_def)
  from th have e: "emitted (emitTo ''c1'' ?ev server0)
      = emitted server0 @ [(Room (am_chatId hello), ?ev)]"
    and i: "\<forall>k. inbox (emitTo ''c1'' ?ev server0) k
                  = (if k \<in> rooms server0 (am_chatId hello)
                     then inbox server0 k @ [?ev] else inbox server0 k)"
    by simp_all
  have r: "am_chatId hello = ''c1''" "rooms server0 ''c1'' = {1, 2}" "inbox server0 = (\<lambda>c. [])"
    "emitted server0 = []"
    by (simp_all add: hello_def server0_def)
  from d e i show ?thesis
    by (simp add: run b r)
qed

section \<open>A failed populate is answered 200 and announced\<close>

text \<open>
  Claim C5 says that every successful addMessage emits one \<open>newMessage\<close> event that
  references the message. \<open>addMessageToChatRoute\<close> never looks at what \<open>populateDocument\<close>
  returns, as \<open>getChatRoute\<close> and \<open>getChatsByUserRoute\<close> do. With a \<open>populateDocument\<close>
  that returns its error object, the message of \<open>hello\<close> is stored and added to chat
  \<open>c1\<close>, the route answers 200, and the one \<open>newMessage\<close> event that connections 1 and 2
  of the room receive carries the error object and no message.
\<close>

theorem addMessage_populate_error_is_announced:
  "status (fst (addMessageToChatRoute populateFails env0 hello (store0, server0))) = 200
   \<and> body (fst (addMessageToChatRoute populateFails env0 hello (store0, server0)))
       = Json (ErrorObj ''Error when fetching and populating a document'')
   \<and> messageDocs (fst (snd (addMessageToChatRoute populateFails env0 hello (store0, server0))))
       = [\<lparr>m_id = ''id'',
           m_data = \<lparr>msg = ''hello'', msgFrom = ''bob'', msgDateTime = ''2025-01-01'',
                      msgType = ''direct''\<rparr>\<rparr>]
   \<and> chats (fst (snd (addMessageToChatRoute populateFails env0 hello (store0, server0))))
       = [\<lparr>c_id = ''c1'', participants = [''u1''], messages = [''id'']\<rparr>]
   \<and> emitted (snd (snd (addMessageToChatRoute populateFails env0 hello (store0, server0))))
       = [(Room ''c1'',
           \<lparr>cu_chat = ErrorObj ''Error when fetching and populating a document'',
            cu_type = ''newMessage''\<rparr>)]
   \<and> inbox (snd (snd (addMessageToChatRoute populateFails env0 hello (store0, server0)))) 1
       = [\<lparr>cu_chat = ErrorObj ''Error when fetching and populating a document'',
           cu_type = ''newMessage''\<rparr>]
   \<and> inbox (snd (snd (addMessageToChatRoute populateFails env0 hello (store0, server0)))) 2
       = [\<lparr>cu_chat = ErrorObj ''Error when fetching and populating a document'',
           cu_type = ''newMessage''\<rparr>]
   \<and> inbox (snd (snd (addMessageToChatRoute populateFails env0 hello (store0, server0)))) 3 = []"
proof -
  have s: "messageDocs store2
       = [\<lparr>m_id = ''id'',
           m_data = \<lparr>msg = ''hello'', msgFrom = ''bob'', msgDateTime = ''2025-01-01'',
                      msgType = ''direct''\<rparr>\<rparr>]"
    "chats store2 = [\<lparr>c_id = ''c1'', participants = [''u1''], messages = [''id'']\<rparr>]"
    by (simp_all add: store2_def store1_def store0_def chat1_def directMessage_hello)
  have r: "am_chatId hello = ''c1''" "rooms server0 ''c1'' = {1, 2}" "inbox server0 = (\<lambda>c. [])"
    "emitted server0 = []"
    by (simp_all add: hello_def server0_def)
  show ?thesis
    by (simp add: hello_populateFails_run s r emitTo_emitted emitTo_inbox)
qed


section \<open>The sender of a message must be a user, not a participant\<close>

text \<open>
  Claim C3, as stated, fails: \<open>createMessage\<close> looks the sender up among the users and
  nothing looks at the chat's participants. \<open>bob\<close> is a user but neither his name nor his
  id is among the participants of chat \<open>c1\<close>; his message is stored, added to the chat and
  announced, and the participants stay as they were.
\<close>

theorem addMessage_from_non_participant_counterexample:
  "''bob'' \<notin> set (participants chat1) \<and> u_id bob \<notin> set (participants chat1)
   \<and> find (\<lambda>c. c_id c = ''c1'') (chats store0) = Some chat1
   \<and> addMessageToChatRoute populateChat env0 hello (store0, server0)
     = (\<lparr>status = 200, body = Json (Populated [directMessage env0 hello])\<rparr>,
        store0\<lparr>messageDocs := [\<lparr>m_id = ''id'', m_data = directMessage env0 hello\<rparr>],
               created := 1,
               chats := [\<lparr>c_id = ''c1'', participants = [''u1''], messages = [''id'']\<rparr>]\<rparr>,
        emitTo ''c1'' \<lparr>cu_chat = Populated [directMessage env0 hello], cu_type = ''newMessage''\<rparr>
          server0)
   \<and> msgFrom (directMessage env0 hello) = ''bob''"
  by (simp add: hello_run) (simp add: store2_def store1_def sample_defs json_def directMessage_def field_def)

text \<open>
  Claim C3, amended. The sender is validated to be an existing user before the message
  is persisted: a request whose \<open>msgFrom\<close> is no user's username is answered with an error
  (500, or 400 when the request is invalid), leaves the store as it was and emits no
  event; and whenever the store or the sockets change, the sender is an existing user.
\<close>

theorem addMessage_requires_existing_sender:
  assumes run: "addMessageToChatRoute pd ev req (st, sock) = (res, st', sock')"
  shows "(\<not> (\<exists>u \<in> set (users st). username u = field (am_msgFrom req)) \<longrightarrow>
            st' = st \<and> sock' = sock
            \<and> status res = (if isAddMessageRequestValid req then 500 else 400))
       \<and> (st' \<noteq> st \<or> sock' \<noteq> sock \<longrightarrow>
            (\<exists>u \<in> set (users st). username u = field (am_msgFrom req)))"
proof -
  have main: "st' = st \<and> sock' = sock \<and> status res = (if isAddMessageRequestValid req then 500 else 400)"
    if no: "\<not> (\<exists>u \<in> set (users st). username u = field (am_msgFrom req))"
  proof (cases "isAddMessageRequestValid req")
    case False
    with run show ?thesis by (auto simp: addMessageRoute_invalid send_simps)
  next
    case True
    from no have "\<not> (\<exists>u \<in> set (users st). username u = msgFrom (directMessage ev req))"
      by (simp add: directMessage_def)
    then obtain e where "createMessage ev (directMessage ev req) st = (Inl e, st)"
      using createMessage_no_user by blast
    with True run show ?thesis
      by (auto simp: addMessageRoute_createMessage_fails send_simps)
  qed
  then show ?thesis by blast
qed

lemma carl_run:
  "addMessageToChatRoute populateChat env0 carl (store0, server0)
     = (send 500 (''Error occurred while adding a message to the chat: ''
                  @ ''Error occurred while creating message: Error: User not found.message''),
        store0, server0)"
  by (simp add: addMessage_defs sample_defs carl_def)

theorem addMessage_requires_existing_sender_witness:
  "\<not> (\<exists>u \<in> set (users store0). username u = field (am_msgFrom carl))
   \<and> isAddMessageRequestValid carl
   \<and> status (fst (addMessageToChatRoute populateChat env0 carl (store0, server0))) = 500
   \<and> snd (addMessageToChatRoute populateChat env0 carl (store0, server0)) = (store0, server0)
   \<and> (\<exists>u \<in> set (users store0). username u = field (am_msgFrom hello))
   \<and> fst (snd (addMessageToChatRoute populateChat env0 hello (store0, server0))) \<noteq> store0"
proof -
  have no: "\<not> (\<exists>u \<in> set (users store0). username u = field (am_msgFrom carl))"
    by (simp add: sample_defs carl_def field_def)
  have valid: "isAddMessageRequestValid carl"
    by (simp add: isAddMessageRequestValid_def truthy_def truthyField_def carl_def sample_defs)
  have changed: "store2 \<noteq> store0"
    by (simp add: store2_def store1_def store0_def)
  from addMessage_requires_existing_sender [OF carl_run] no valid
    addMessage_requires_existing_sender [OF hello_run] changed
  show ?thesis
    by (simp add: carl_run hello_run)
qed

section \<open>Facts about \<open>saveChat\<close>\<close>











section \<open>A failure of the store is reported, and nothing is rolled back\<close>


lemma saveChat_createFails_run:
  "saveChat envCreateFails payload1 store0
     = (Inl ''Error occurred while saving chat: MongoError: connection lost.message'', store1)"
  by (simp add: saveChat_def MessageModel_create_def ChatModel_create_def saveChatError_def
      errToString_def envCreateFails_def payload1_def store1_def Let_def sample_defs)

lemma directMessage_envUpdateFails: "directMessage envUpdateFails hello = directMessage env0 hello"
  by (simp add: directMessage_def envUpdateFails_def env0_def)

lemma hello_createMessage_updateFails:
  "createMessage envUpdateFails (directMessage envUpdateFails hello) store0
     = (Inr \<lparr>m_id = ''id'', m_data = directMessage env0 hello\<rparr>, store1)"
  by (simp add: createMessage_def UserModel_findOne_def MessageModel_create_def directMessage_def
      field_def truthyField_def store1_def Let_def envUpdateFails_def sample_defs)

lemma hello_addMessageToChat_updateFails:
  "addMessageToChat envUpdateFails (am_chatId hello)
       (m_id \<lparr>m_id = ''id'', m_data = directMessage env0 hello\<rparr>) store1
     = (Inl ''Error occurred while adding the message to chat: MongoError: connection lost.message'',
        store1)"
  by (simp add: addMessageToChat_def ChatModel_findByIdAndUpdate_def addMessageError_def
      errToString_def envUpdateFails_def env0_def boom_def)






section \<open>A new participant is announced to every connection\<close>

lemma addParticipantRoute_invalid:
  "\<not> isAddParticipantRequestValid req \<Longrightarrow>
     addParticipantToChatRoute ev req (st, sock) = (send 400 ''Invalid request body'', st, sock)"
  by (simp add: addParticipantToChatRoute_def)

lemma addParticipantRoute_fails:
  "isAddParticipantRequestValid req \<Longrightarrow>
   addParticipantToChat ev (ap_chatId req) (field (ap_participant req)) st = (Inl e, st1) \<Longrightarrow>
     addParticipantToChatRoute ev req (st, sock)
       = (send 500 (''Error occurred while adding participant to chat: '' @ e), st1, sock)"
  by (simp add: addParticipantToChatRoute_def)

lemma addParticipantRoute_success:
  "isAddParticipantRequestValid req \<Longrightarrow>
   addParticipantToChat ev (ap_chatId req) (field (ap_participant req)) st = (Inr c, st1) \<Longrightarrow>
     addParticipantToChatRoute ev req (st, sock)
       = (json (ChatDoc c), st1, emit \<lparr>cu_chat = ChatDoc c, cu_type = ''newParticipant''\<rparr> sock)"
  by (simp add: addParticipantToChatRoute_def)

text \<open>
  Claim C4, amended. A successful \<open>addParticipantToChatRoute\<close> emits exactly one
  \<open>chatUpdate\<close> event of type \<open>newParticipant\<close> carrying the updated chat, with
  \<open>socket.emit\<close>: every connection receives it once, whatever rooms it has joined; a
  request that is not answered with 200 emits nothing.
\<close>

theorem addParticipant_event_goes_to_all_connections:
  assumes run: "addParticipantToChatRoute ev req (st, sock) = (res, st', sock')"
  shows "(body res = Json (ChatDoc c) \<longrightarrow>
            addParticipantToChat ev (ap_chatId req) (field (ap_participant req)) st = (Inr c, st')
            \<and> emitted sock'
                = emitted sock
                  @ [(AllConnections, \<lparr>cu_chat = ChatDoc c, cu_type = ''newParticipant''\<rparr>)]
            \<and> (\<forall>k. inbox sock' k
                   = (if k \<in> connections sock
                      then inbox sock k @ [\<lparr>cu_chat = ChatDoc c, cu_type = ''newParticipant''\<rparr>]
                      else inbox sock k)))
       \<and> (status res \<noteq> 200 \<longrightarrow> sock' = sock)"
proof (cases "isAddParticipantRequestValid req")
  case False
  with run show ?thesis by (auto simp: addParticipantRoute_invalid send_simps)
next
  case True
  obtain r st1 where ap:
    "addParticipantToChat ev (ap_chatId req) (field (ap_participant req)) st = (r, st1)"
    by (cases "addParticipantToChat ev (ap_chatId req) (field (ap_participant req)) st")
  show ?thesis
  proof (cases r)
    case (Inl e)
    with True ap run show ?thesis by (auto simp: addParticipantRoute_fails send_simps)
  next
    case (Inr c')
    with True ap run have "res = json (ChatDoc c')" "st' = st1"
      "sock' = emit \<lparr>cu_chat = ChatDoc c', cu_type = ''newParticipant''\<rparr> sock"
      by (auto simp: addParticipantRoute_success)
    with ap Inr show ?thesis
      by (auto simp: json_simps emit_emitted emit_inbox)
  qed
qed

lemma addBob_valid: "isAddParticipantRequestValid addBob"
  by (simp add: isAddParticipantRequestValid_def truthy_def truthyField_def addBob_def)

lemma addBob_service:
  "addParticipantToChat env0 (ap_chatId addBob) (field (ap_participant addBob)) store0
     = (Inr (chat1\<lparr>participants := [''u1'', ''u2'']\<rparr>),
        store0\<lparr>chats := [chat1\<lparr>participants := [''u1'', ''u2'']\<rparr>]\<rparr>)"
  by (simp add: addParticipantToChat_def UserModel_findOne_def ChatModel_findByIdAndUpdate_def
      field_def addBob_def sample_defs)

lemma addBob_run:
  "addParticipantToChatRoute env0 addBob (store0, server0)
     = (json (ChatDoc (chat1\<lparr>participants := [''u1'', ''u2'']\<rparr>)),
        store0\<lparr>chats := [chat1\<lparr>participants := [''u1'', ''u2'']\<rparr>]\<rparr>,
        emit \<lparr>cu_chat = ChatDoc (chat1\<lparr>participants := [''u1'', ''u2'']\<rparr>),
              cu_type = ''newParticipant''\<rparr> server0)"
  by (rule addParticipantRoute_success [OF addBob_valid addBob_service])

text \<open>
  Claim C4, as stated, fails: connection 3 has not joined the room of chat \<open>c1\<close> and
  receives the \<open>newParticipant\<close> event of that chat, which is emitted to all connections.
\<close>

theorem newParticipant_reaches_non_subscriber_counterexample:
  "3 \<in> connections server0 \<and> 3 \<notin> rooms server0 ''c1'' \<and> inbox server0 3 = []
   \<and> status (fst (addParticipantToChatRoute env0 addBob (store0, server0))) = 200
   \<and> inbox (snd (snd (addParticipantToChatRoute env0 addBob (store0, server0)))) 3
       = [\<lparr>cu_chat = ChatDoc \<lparr>c_id = ''c1'', participants = [''u1'', ''u2''], messages = []\<rparr>,
           cu_type = ''newParticipant''\<rparr>]
   \<and> emitted (snd (snd (addParticipantToChatRoute env0 addBob (store0, server0))))
       = [(AllConnections,
           \<lparr>cu_chat = ChatDoc \<lparr>c_id = ''c1'', participants = [''u1'', ''u2''], messages = []\<rparr>,
            cu_type = ''newParticipant''\<rparr>)]"
  by (simp add: addBob_run json_simps emit_inbox emit_emitted) (simp add: server0_def chat1_def)

theorem addParticipant_event_goes_to_all_connections_witness:
  "body (fst (addParticipantToChatRoute env0 addBob (store0, server0)))
     = Json (ChatDoc (chat1\<lparr>participants := [''u1'', ''u2'']\<rparr>))
   \<and> emitted (snd (snd (addParticipantToChatRoute env0 addBob (store0, server0))))
       = [(AllConnections, \<lparr>cu_chat = ChatDoc (chat1\<lparr>participants := [''u1'', ''u2'']\<rparr>),
                            cu_type = ''newParticipant''\<rparr>)]
   \<and> inbox (snd (snd (addParticipantToChatRoute env0 addBob (store0, server0)))) 1
       = [\<lparr>cu_chat = ChatDoc (chat1\<lparr>participants := [''u1'', ''u2'']\<rparr>),
           cu_type = ''newParticipant''\<rparr>]
   \<and> inbox (snd (snd (addParticipantToChatRoute env0 addBob (store0, server0)))) 3
       = [\<lparr>cu_chat = ChatDoc (chat1\<lparr>participants := [''u1'', ''u2'']\<rparr>),
           cu_type = ''newParticipant''\<rparr>]
   \<and> status (fst (addParticipantToChatRoute env0 (addBob\<lparr>ap_participant := None\<rparr>)
                      (store0, server0))) \<noteq> 200
   \<and> snd (snd (addParticipantToChatRoute env0 (addBob\<lparr>ap_participant := None\<rparr>)
                      (store0, server0))) = server0"
proof -
  have b: "body (json (ChatDoc (chat1\<lparr>participants := [''u1'', ''u2'']\<rparr>)) :: (message list) response)
             = Json (ChatDoc (chat1\<lparr>participants := [''u1'', ''u2'']\<rparr>))"
    by (simp add: json_simps)
  have s: "connections server0 = {1, 2, 3}" "inbox server0 = (\<lambda>c. [])" "emitted server0 = []"
    by (simp_all add: server0_def)
  have inv: "addParticipantToChatRoute env0 (addBob\<lparr>ap_participant := None\<rparr>) (store0, server0)
               = (send 400 ''Invalid request body'', store0, server0)"
    by (rule addParticipantRoute_invalid)
       (simp add: isAddParticipantRequestValid_def truthyField_def)
  have n: "status (send 400 ''Invalid request body'' :: (message list) response) \<noteq> 200"
    by (simp add: send_simps)
  from addParticipant_event_goes_to_all_connections
         [OF addBob_run, of "chat1\<lparr>participants := [''u1'', ''u2'']\<rparr>"]
       addParticipant_event_goes_to_all_connections [OF inv] b n
  show ?thesis
    by (simp add: addBob_run inv s send_simps)
qed

section \<open>Status codes of the chat controller\<close>

lemma createChatRoute_invalid:
  "\<not> isCreateChatRequestValid req \<Longrightarrow>
     createChatRoute pd ev req (st, sock)
       = (send 400 ''Invalid request for creating chat'', st, sock)"
  by (simp add: createChatRoute_def)

lemma createChatRoute_fails:
  "isCreateChatRequestValid req \<Longrightarrow> saveChat ev (payload req) st = (Inl e, sta) \<Longrightarrow>
     createChatRoute pd ev req (st, sock)
       = (send 500 (''Error occurred while creating a chat: '' @ e), sta, sock)"
  by (simp add: createChatRoute_def payload_def)

lemma createChatRoute_success:
  "isCreateChatRequestValid req \<Longrightarrow> saveChat ev (payload req) st = (Inr c, sta) \<Longrightarrow>
     createChatRoute pd ev req (st, sock)
       = (json (populated (pd sta (c_id c))), sta,
          emit \<lparr>cu_chat = populated (pd sta (c_id c)), cu_type = ''created''\<rparr> sock)"
  by (simp add: createChatRoute_def payload_def Let_def)

text \<open>\<open>createChatRoute\<close> does not look for the error object of \<open>populateDocument\<close>
  either: it answers 200 with it and emits it.\<close>

lemma createChatRoute_populate_error:
  "isCreateChatRequestValid req \<Longrightarrow> saveChat ev (payload req) st = (Inr c, sta) \<Longrightarrow>
   pd sta (c_id c) = Inl e \<Longrightarrow>
     createChatRoute pd ev req (st, sock)
       = (\<lparr>status = 200, body = Json (ErrorObj e)\<rparr>, sta,
          emit \<lparr>cu_chat = ErrorObj e, cu_type = ''created''\<rparr> sock)"
  by (simp add: createChatRoute_success json_def populated_def)

text \<open>
  Claim C6, amended. In \<open>createChatRoute\<close>, \<open>addMessageToChatRoute\<close> and
  \<open>addParticipantToChatRoute\<close>: a request that fails the field validation is answered 400
  with the route's literal message and changes neither the store nor the sockets; an
  error returned by a service (\<open>saveChat\<close>, \<open>createMessage\<close>, \<open>addMessageToChat\<close>,
  \<open>addParticipantToChat\<close>) is answered 500 with the error after the route's prefix and no
  event; a successful creation or append whose \<open>populateDocument\<close> returns a chat is
  answered 200 with that populated chat; and a successful addParticipant is answered 200
  with the chat document as the service returned it.
\<close>

theorem chat_controller_status_codes:
  "(\<not> isCreateChatRequestValid cr \<longrightarrow>
      createChatRoute pd ev cr (st, sock)
        = (send 400 ''Invalid request for creating chat'', st, sock))
   \<and> (isCreateChatRequestValid cr \<and> saveChat ev (payload cr) st = (Inl e, sta) \<longrightarrow>
      createChatRoute pd ev cr (st, sock)
        = (send 500 (''Error occurred while creating a chat: '' @ e), sta, sock))
   \<and> (isCreateChatRequestValid cr \<and> saveChat ev (payload cr) st = (Inr c, sta)
       \<and> pd sta (c_id c) = Inr p \<longrightarrow>
      fst (createChatRoute pd ev cr (st, sock)) = \<lparr>status = 200, body = Json (Populated p)\<rparr>
      \<and> fst (snd (createChatRoute pd ev cr (st, sock))) = sta)
   \<and> (\<not> isAddMessageRequestValid mr \<longrightarrow>
      addMessageToChatRoute pd ev mr (st, sock) = (send 400 ''Invalid request body'', st, sock))
   \<and> (isAddMessageRequestValid mr \<and> createMessage ev (directMessage ev mr) st = (Inl e, sta) \<longrightarrow>
      addMessageToChatRoute pd ev mr (st, sock)
        = (send 500 (''Error occurred while adding a message to the chat: '' @ e), sta, sock))
   \<and> (isAddMessageRequestValid mr \<and> createMessage ev (directMessage ev mr) st = (Inr d, sta)
       \<and> truthy (m_id d) \<and> addMessageToChat ev (am_chatId mr) (m_id d) sta = (Inl e, stb) \<longrightarrow>
      addMessageToChatRoute pd ev mr (st, sock)
        = (send 500 (''Error occurred while adding a message to the chat: '' @ e), stb, sock))
   \<and> (isAddMessageRequestValid mr \<and> createMessage ev (directMessage ev mr) st = (Inr d, sta)
       \<and> truthy (m_id d) \<and> addMessageToChat ev (am_chatId mr) (m_id d) sta = (Inr c, stb)
       \<and> pd stb (c_id c) = Inr p \<longrightarrow>
      fst (addMessageToChatRoute pd ev mr (st, sock)) = \<lparr>status = 200, body = Json (Populated p)\<rparr>
      \<and> fst (snd (addMessageToChatRoute pd ev mr (st, sock))) = stb)
   \<and> (\<not> isAddParticipantRequestValid pr \<longrightarrow>
      addParticipantToChatRoute ev pr (st, sock :: 'p server)
        = (send 400 ''Invalid request body'', st, sock))
   \<and> (isAddParticipantRequestValid pr
       \<and> addParticipantToChat ev (ap_chatId pr) (field (ap_participant pr)) st = (Inl e, sta) \<longrightarrow>
      addParticipantToChatRoute ev pr (st, sock)
        = (send 500 (''Error occurred while adding participant to chat: '' @ e), sta, sock))
   \<and> (isAddParticipantRequestValid pr
       \<and> addParticipantToChat ev (ap_chatId pr) (field (ap_participant pr)) st = (Inr c, sta) \<longrightarrow>
      fst (addParticipantToChatRoute ev pr (st, sock)) = \<lparr>status = 200, body = Json (ChatDoc c)\<rparr>
      \<and> fst (snd (addParticipantToChatRoute ev pr (st, sock))) = sta)"
proof (intro conjI impI)
  assume "\<not> isCreateChatRequestValid cr"
  then show "createChatRoute pd ev cr (st, sock)
        = (send 400 ''Invalid request for creating chat'', st, sock)"
    by (rule createChatRoute_invalid)
next
  assume "isCreateChatRequestValid cr \<and> saveChat ev (payload cr) st = (Inl e, sta)"
  then show "createChatRoute pd ev cr (st, sock)
        = (send 500 (''Error occurred while creating a chat: '' @ e), sta, sock)"
    by (simp add: createChatRoute_fails)
next
  assume a: "isCreateChatRequestValid cr \<and> saveChat ev (payload cr) st = (Inr c, sta)
       \<and> pd sta (c_id c) = Inr p"
  then show "fst (createChatRoute pd ev cr (st, sock)) = \<lparr>status = 200, body = Json (Populated p)\<rparr>"
    by (simp add: createChatRoute_success json_def populated_def)
  from a show "fst (snd (createChatRoute pd ev cr (st, sock))) = sta"
    by (simp add: createChatRoute_success)
next
  assume "\<not> isAddMessageRequestValid mr"
  then show "addMessageToChatRoute pd ev mr (st, sock) = (send 400 ''Invalid request body'', st, sock)"
    by (rule addMessageRoute_invalid)
next
  assume "isAddMessageRequestValid mr \<and> createMessage ev (directMessage ev mr) st = (Inl e, sta)"
  then show "addMessageToChatRoute pd ev mr (st, sock)
        = (send 500 (''Error occurred while adding a message to the chat: '' @ e), sta, sock)"
    by (simp add: addMessageRoute_createMessage_fails)
next
  assume "isAddMessageRequestValid mr \<and> createMessage ev (directMessage ev mr) st = (Inr d, sta)
       \<and> truthy (m_id d) \<and> addMessageToChat ev (am_chatId mr) (m_id d) sta = (Inl e, stb)"
  then show "addMessageToChatRoute pd ev mr (st, sock)
        = (send 500 (''Error occurred while adding a message to the chat: '' @ e), stb, sock)"
    by (simp add: addMessageRoute_update_fails)
next
  assume a: "isAddMessageRequestValid mr \<and> createMessage ev (directMessage ev mr) st = (Inr d, sta)
       \<and> truthy (m_id d) \<and> addMessageToChat ev (am_chatId mr) (m_id d) sta = (Inr c, stb)
       \<and> pd stb (c_id c) = Inr p"
  then have r: "addMessageToChatRoute pd ev mr (st, sock)
       = (json (populated (pd stb (c_id c))), stb,
          emitTo (am_chatId mr)
            \<lparr>cu_chat = populated (pd stb (c_id c)), cu_type = ''newMessage''\<rparr> sock)"
    using addMessageRoute_success [of mr ev st d sta c stb pd sock] by simp
  from a show "fst (addMessageToChatRoute pd ev mr (st, sock)) = \<lparr>status = 200, body = Json (Populated p)\<rparr>"
    by (simp add: r json_def populated_def)
  show "fst (snd (addMessageToChatRoute pd ev mr (st, sock))) = stb"
    by (simp add: r)
next
  assume "\<not> isAddParticipantRequestValid pr"
  then show "addParticipantToChatRoute ev pr (st, sock) = (send 400 ''Invalid request body'', st, sock)"
    by (rule addParticipantRoute_invalid)
next
  assume "isAddParticipantRequestValid pr
       \<and> addParticipantToChat ev (ap_chatId pr) (field (ap_participant pr)) st = (Inl e, sta)"
  then show "addParticipantToChatRoute ev pr (st, sock)
        = (send 500 (''Error occurred while adding participant to chat: '' @ e), sta, sock)"
    by (simp add: addParticipantRoute_fails)
next
  assume a: "isAddParticipantRequestValid pr
       \<and> addParticipantToChat ev (ap_chatId pr) (field (ap_participant pr)) st = (Inr c, sta)"
  then show "fst (addParticipantToChatRoute ev pr (st, sock)) = \<lparr>status = 200, body = Json (ChatDoc c)\<rparr>"
    by (simp add: addParticipantRoute_success json_def)
  from a show "fst (snd (addParticipantToChatRoute ev pr (st, sock))) = sta"
    by (simp add: addParticipantRoute_success)
qed

lemma badCreate_invalid: "\<not> isCreateChatRequestValid badCreate"
  by (simp add: isCreateChatRequestValid_def badCreate_def)

lemma goodCreate_valid: "isCreateChatRequestValid goodCreate"
  by (simp add: isCreateChatRequestValid_def goodCreate_def)

lemma payload_goodCreate: "payload goodCreate = payload1"
  by (simp add: payload_def goodCreate_def payload1_def field_def)

lemma saveChat_run:
  "saveChat env0 payload1 store0 = (Inr chat2, store3)"
  by (simp add: saveChat_def MessageModel_create_def ChatModel_create_def
      payload1_def store1_def store3_def chat2_def Let_def sample_defs)

lemma populate_store3: "populateChat store3 (c_id chat2) = Inr [directMessage env0 hello]"
  by (simp add: populateChat_def store3_def store1_def chat2_def sample_defs)

lemma noMsg_invalid: "\<not> isAddMessageRequestValid (hello\<lparr>am_msg := None\<rparr>)"
  by (simp add: isAddMessageRequestValid_def truthyField_def)

lemma carl_valid: "isAddMessageRequestValid carl"
  by (simp add: isAddMessageRequestValid_def truthy_def truthyField_def carl_def hello_def)

lemma carl_createMessage:
  "createMessage env0 (directMessage env0 carl) store0
     = (Inl ''Error occurred while creating message: Error: User not found.message'', store0)"
  by (simp add: createMessage_def UserModel_findOne_def directMessage_def field_def
      createMessageError_def errToString_def carl_def sample_defs)

lemma noParticipant_invalid: "\<not> isAddParticipantRequestValid (addBob\<lparr>ap_participant := None\<rparr>)"
  by (simp add: isAddParticipantRequestValid_def truthyField_def)

lemma addCarl_valid: "isAddParticipantRequestValid addCarl"
  by (simp add: isAddParticipantRequestValid_def truthy_def truthyField_def addCarl_def)

lemma addCarl_service:
  "addParticipantToChat env0 (ap_chatId addCarl) (field (ap_participant addCarl)) store0
     = (Inl ''Error occurred while adding participant to chat: Error: User not found.message'',
        store0)"
  by (simp add: addParticipantToChat_def UserModel_findOne_def field_def addParticipantError_def
      errToString_def addCarl_def sample_defs)

theorem chat_controller_status_codes_witness:
  "status (fst (createChatRoute populateChat env0 badCreate (store0, server0))) = 400
   \<and> snd (createChatRoute populateChat env0 badCreate (store0, server0)) = (store0, server0)
   \<and> status (fst (createChatRoute populateChat envCreateFails goodCreate (store0, server0))) = 500
   \<and> fst (createChatRoute populateChat env0 goodCreate (store0, server0))
       = \<lparr>status = 200, body = Json (Populated [directMessage env0 hello])\<rparr>
   \<and> status (fst (addMessageToChatRoute populateChat env0 (hello\<lparr>am_msg := None\<rparr>)
                     (store0, server0))) = 400
   \<and> status (fst (addMessageToChatRoute populateChat env0 carl (store0, server0))) = 500
   \<and> status (fst (addMessageToChatRoute populateChat envUpdateFails hello (store0, server0))) = 500
   \<and> fst (addMessageToChatRoute populateChat env0 hello (store0, server0))
       = \<lparr>status = 200, body = Json (Populated [directMessage env0 hello])\<rparr>
   \<and> status (fst (addParticipantToChatRoute env0 (addBob\<lparr>ap_participant := None\<rparr>)
                     (store0, server0))) = 400
   \<and> status (fst (addParticipantToChatRoute env0 addCarl (store0, server0))) = 500
   \<and> fst (addParticipantToChatRoute env0 addBob (store0, server0))
       = \<lparr>status = 200, body = Json (ChatDoc (chat1\<lparr>participants := [''u1'', ''u2'']\<rparr>))\<rparr>"
proof -
  note th = chat_controller_status_codes [where pd = populateChat and st = store0 and sock = server0]
  have t: "truthy (m_id \<lparr>m_id = ''id'', m_data = directMessage env0 hello\<rparr>)"
    by (simp add: truthy_def)
  have a1: "createChatRoute populateChat env0 badCreate (store0, server0)
        = (send 400 ''Invalid request for creating chat'', store0, server0)"
    using th [where cr = badCreate and ev = env0] badCreate_invalid by blast
  have a2: "createChatRoute populateChat envCreateFails goodCreate (store0, server0)
        = (send 500 (''Error occurred while creating a chat: ''
             @ ''Error occurred while saving chat: MongoError: connection lost.message''),
           store1, server0)"
    using th [where cr = goodCreate and ev = envCreateFails and sta = store1
        and e = "''Error occurred while saving chat: MongoError: connection lost.message''"]
      goodCreate_valid saveChat_createFails_run payload_goodCreate by simp
  have a3: "fst (createChatRoute populateChat env0 goodCreate (store0, server0))
        = \<lparr>status = 200, body = Json (Populated [directMessage env0 hello])\<rparr>"
    using th [where cr = goodCreate and ev = env0 and sta = store3 and c = chat2
        and p = "[directMessage env0 hello]"]
      goodCreate_valid saveChat_run payload_goodCreate populate_store3 by simp
  have b1: "addMessageToChatRoute populateChat env0 (hello\<lparr>am_msg := None\<rparr>) (store0, server0)
        = (send 400 ''Invalid request body'', store0, server0)"
    using th [where mr = "hello\<lparr>am_msg := None\<rparr>" and ev = env0] noMsg_invalid by blast
  have b2: "addMessageToChatRoute populateChat env0 carl (store0, server0)
        = (send 500 (''Error occurred while adding a message to the chat: ''
             @ ''Error occurred while creating message: Error: User not found.message''),
           store0, server0)"
    using th [where mr = carl and ev = env0 and sta = store0
        and e = "''Error occurred while creating message: Error: User not found.message''"]
      carl_valid carl_createMessage by simp
  have b3: "addMessageToChatRoute populateChat envUpdateFails hello (store0, server0)
        = (send 500 (''Error occurred while adding a message to the chat: ''
             @ ''Error occurred while adding the message to chat: MongoError: connection lost.message''),
           store1, server0)"
    using th [where mr = hello and ev = envUpdateFails and sta = store1 and stb = store1
        and d = "\<lparr>m_id = ''id'', m_data = directMessage env0 hello\<rparr>"
        and e = "''Error occurred while adding the message to chat: MongoError: connection lost.message''"]
      hello_valid hello_createMessage_updateFails hello_addMessageToChat_updateFails t by simp
  have b4: "fst (addMessageToChatRoute populateChat env0 hello (store0, server0))
        = \<lparr>status = 200, body = Json (Populated [directMessage env0 hello])\<rparr>"
    using th [where mr = hello and ev = env0 and sta = store1 and stb = store2
        and d = "\<lparr>m_id = ''id'', m_data = directMessage env0 hello\<rparr>"
        and c = "chat1\<lparr>messages := [''id'']\<rparr>" and p = "[directMessage env0 hello]"]
      hello_valid hello_createMessage hello_addMessageToChat hello_populate t
    by (simp add: hello_def chat1_def)
  have c1: "addParticipantToChatRoute env0 (addBob\<lparr>ap_participant := None\<rparr>) (store0, server0)
        = (send 400 ''Invalid request body'', store0, server0)"
    using th [where pr = "addBob\<lparr>ap_participant := None\<rparr>" and ev = env0] noParticipant_invalid
    by blast
  have c2: "addParticipantToChatRoute env0 addCarl (store0, server0)
        = (send 500 (''Error occurred while adding participant to chat: ''
             @ ''Error occurred while adding participant to chat: Error: User not found.message''),
           store0, server0)"
    using th [where pr = addCarl and ev = env0 and sta = store0
        and e = "''Error occurred while adding participant to chat: Error: User not found.message''"]
      addCarl_valid addCarl_service by simp
  have c3: "fst (addParticipantToChatRoute env0 addBob (store0, server0))
        = \<lparr>status = 200, body = Json (ChatDoc (chat1\<lparr>participants := [''u1'', ''u2'']\<rparr>))\<rparr>"
    using th [where pr = addBob and ev = env0
        and sta = "store0\<lparr>chats := [chat1\<lparr>participants := [''u1'', ''u2'']\<rparr>]\<rparr>"
        and c = "chat1\<lparr>participants := [''u1'', ''u2'']\<rparr>"]
      addBob_valid addBob_service by simp
  show ?thesis
    by (simp add: a1 a2 a3 b1 b2 b3 b4 c1 c2 c3 send_simps)
qed

lemma addBob_service2:
  "addParticipantToChat env0 (ap_chatId addBob) (field (ap_participant addBob)) store2
     = (Inr \<lparr>c_id = ''c1'', participants = [''u1'', ''u2''], messages = [''id'']\<rparr>,
        store2\<lparr>chats := [\<lparr>c_id = ''c1'', participants = [''u1'', ''u2''], messages = [''id'']\<rparr>]\<rparr>)"
  by (simp add: addParticipantToChat_def UserModel_findOne_def ChatModel_findByIdAndUpdate_def
      field_def addBob_def store2_def store1_def sample_defs)

text \<open>
  Claim C6, as stated, fails in its last part: the chat \<open>addParticipantToChatRoute\<close>
  answers with is not populated. Its \<open>messages\<close> are the ids the document holds, while
  \<open>populateDocument\<close> on the same store gives the messages themselves.
\<close>

theorem addParticipant_response_not_populated_counterexample:
  "fst (addParticipantToChatRoute env0 addBob (store2, server0))
     = \<lparr>status = 200,
        body = Json (ChatDoc \<lparr>c_id = ''c1'', participants = [''u1'', ''u2''], messages = [''id'']\<rparr>)\<rparr>
   \<and> populateChat (fst (snd (addParticipantToChatRoute env0 addBob (store2, server0)))) ''c1''
     = Inr [directMessage env0 hello]
   \<and> body (fst (addParticipantToChatRoute env0 addBob (store2, server0)))
     \<noteq> Json (Populated [directMessage env0 hello])"
proof -
  have "addParticipantToChatRoute env0 addBob (store2, server0)
     = (json (ChatDoc \<lparr>c_id = ''c1'', participants = [''u1'', ''u2''], messages = [''id'']\<rparr>),
        store2\<lparr>chats := [\<lparr>c_id = ''c1'', participants = [''u1'', ''u2''], messages = [''id'']\<rparr>]\<rparr>,
        emit \<lparr>cu_chat = ChatDoc \<lparr>c_id = ''c1'', participants = [''u1'', ''u2''], messages = [''id'']\<rparr>,
              cu_type = ''newParticipant''\<rparr> server0)"
    by (rule addParticipantRoute_success [OF addBob_valid addBob_service2])
  then show ?thesis
    by (simp add: json_def populateChat_def store2_def store1_def)
qed

section \<open>The Nim game page only emits moves between 1 and 3\<close>

lemma handleInputChange_moveOk: "moveOk pg \<Longrightarrow> moveOk (handleInputChange v pg)"
  by (auto simp: moveOk_def handleInputChange_def split: option.splits)

lemma handleMakeMove_moveOk:
  "moveOk pg \<Longrightarrow> handleMakeMove pg = Some e \<Longrightarrow> 1 \<le> mm_numObjects e \<and> mm_numObjects e \<le> 3"
  by (auto simp: moveOk_def handleMakeMove_def split: option.splits if_splits)

lemma nimSession_moveOk:
  "moveOk pg \<Longrightarrow> e \<in> set (nimSession as pg) \<Longrightarrow> 1 \<le> mm_numObjects e \<and> mm_numObjects e \<le> 3"
proof (induction as pg rule: nimSession.induct)
  case (1 pg)
  then show ?case by simp
next
  case (2 v as pg)
  then show ?case by (simp add: handleInputChange_moveOk)
next
  case (3 as pg)
  then show ?case
    by (cases "handleMakeMove pg") (auto dest: handleMakeMove_moveOk)
qed

text \<open>
  Claim C8. Every \<open>makeMove\<close> event the Nim game page emits, in any session that starts
  from the hook's initial state, carries a \<open>numObjects\<close> between 1 and 3:
  \<open>handleInputChange\<close> changes the stored move only to a value between 1 and 3, and
  \<open>handleMakeMove\<close> emits only the stored move.
\<close>

theorem makeMove_numObjects_in_range:
  "(\<forall>e \<in> set (nimSession as (useNimGamePage gid uname)).
      1 \<le> mm_numObjects e \<and> mm_numObjects e \<le> 3)
   \<and> (move (handleInputChange v pg) \<noteq> move pg \<longrightarrow>
        (\<exists>n. move (handleInputChange v pg) = Some n \<and> 1 \<le> n \<and> n \<le> 3))
   \<and> (handleMakeMove pg' = Some e \<longrightarrow> move pg' = Some (mm_numObjects e))"
proof (intro conjI ballI impI)
  fix e assume "e \<in> set (nimSession as (useNimGamePage gid uname))"
  moreover have "moveOk (useNimGamePage gid uname)"
    by (simp add: moveOk_def useNimGamePage_def)
  ultimately show "1 \<le> mm_numObjects e" "mm_numObjects e \<le> 3"
    using nimSession_moveOk by blast+
next
  assume "move (handleInputChange v pg) \<noteq> move pg"
  then show "\<exists>n. move (handleInputChange v pg) = Some n \<and> 1 \<le> n \<and> n \<le> 3"
    by (auto simp: handleInputChange_def split: option.splits if_splits)
next
  assume "handleMakeMove pg' = Some e"
  then show "move pg' = Some (mm_numObjects e)"
    by (auto simp: handleMakeMove_def split: option.splits if_splits)
qed

theorem makeMove_numObjects_in_range_witness:
  "nimSession [InputChange ''12'', MakeMove] (useNimGamePage ''g1'' ''ann'')
     = [\<lparr>mm_gameID = ''g1'', mm_playerID = ''ann'', mm_numObjects = 2\<rparr>]
   \<and> 1 \<le> mm_numObjects (hd (nimSession [InputChange ''12'', MakeMove] (useNimGamePage ''g1'' ''ann'')))
   \<and> mm_numObjects (hd (nimSession [InputChange ''12'', MakeMove] (useNimGamePage ''g1'' ''ann''))) \<le> 3
   \<and> move (handleInputChange ''12'' (useNimGamePage ''g1'' ''ann'')) = Some 2
   \<and> move (useNimGamePage ''g1'' ''ann''\<lparr>move := Some 2\<rparr>) = Some 2"
proof -
  let ?pg = "useNimGamePage ''g1'' ''ann''"
  let ?as = "[InputChange ''12'', MakeMove]"
  let ?e = "\<lparr>mm_gameID = ''g1'', mm_playerID = ''ann'', mm_numObjects = 2\<rparr>"
  have run: "nimSession ?as ?pg = [?e]"
    by (simp add: useNimGamePage_def handleInputChange_def handleMakeMove_def toNumber_def
        sliceLast_def isDigit_def)
  have mk: "handleMakeMove (?pg\<lparr>move := Some 2\<rparr>) = Some ?e"
    by (simp add: useNimGamePage_def handleMakeMove_def)
  have chg: "move (handleInputChange ''12'' ?pg) \<noteq> move ?pg"
    by (simp add: useNimGamePage_def handleInputChange_def toNumber_def sliceLast_def isDigit_def)
  note th = makeMove_numObjects_in_range [where as = ?as and gid = "''g1''" and uname = "''ann''" and v = "''12''" and pg = ?pg and pg' = "?pg\<lparr>move := Some 2\<rparr>" and e = ?e]
  from th run have "1 \<le> mm_numObjects (hd (nimSession ?as ?pg)) \<and> mm_numObjects (hd (nimSession ?as ?pg)) \<le> 3"
    by simp
  moreover from th chg have "\<exists>n. move (handleInputChange ''12'' ?pg) = Some n \<and> 1 \<le> n \<and> n \<le> 3"
    by blast
  moreover from th mk have "move (?pg\<lparr>move := Some 2\<rparr>) = Some (mm_numObjects ?e)" by blast
  ultimately show ?thesis using run
    by (simp add: useNimGamePage_def handleInputChange_def toNumber_def sliceLast_def isDigit_def)
qed

section \<open>Signup does not stop at an unconfirmed password\<close>

text \<open>
  Claim C9. In signup mode, with a non-empty username and password, \<open>validateInputs\<close>
  returns true also when the password and its confirmation differ (it then only sets the
  error message), and \<open>handleSubmit\<close> calls \<open>createUser\<close> with that username and
  password.
\<close>

theorem signup_submits_unconfirmed_password:
  "a_username f \<noteq> [] \<and> a_password f \<noteq> [] \<longrightarrow>
     fst (validateInputs Signup f) = True
     \<and> (a_password f \<noteq> a_passwordConfirmation f \<longrightarrow>
          snd (validateInputs Signup f)
            = f\<lparr>a_err := ''Password and Password confirmation do not match''\<rparr>)
     \<and> sr_calls (handleSubmit api Signup f) = [CreateUser (a_username f) (a_password f)]"
proof (intro impI)
  assume filled: "a_username f \<noteq> [] \<and> a_password f \<noteq> []"
  then have ok: "fst (validateInputs Signup f) = True"
    by (simp add: validateInputs_def)
  from filled have mismatch: "a_password f \<noteq> a_passwordConfirmation f \<longrightarrow>
      snd (validateInputs Signup f)
        = f\<lparr>a_err := ''Password and Password confirmation do not match''\<rparr>"
    by (simp add: validateInputs_def)
  obtain g where v: "validateInputs Signup f = (True, g)"
    using ok by (cases "validateInputs Signup f") simp
  have "sr_calls (handleSubmit api Signup f) = [CreateUser (a_username f) (a_password f)]"
    by (cases "api (CreateUser (a_username f) (a_password f))")
       (simp_all add: handleSubmit_def v)
  with ok mismatch show "fst (validateInputs Signup f) = True
     \<and> (a_password f \<noteq> a_passwordConfirmation f \<longrightarrow>
          snd (validateInputs Signup f)
            = f\<lparr>a_err := ''Password and Password confirmation do not match''\<rparr>)
     \<and> sr_calls (handleSubmit api Signup f) = [CreateUser (a_username f) (a_password f)]"
    by simp
qed

theorem signup_submits_unconfirmed_password_witness:
  "fst (validateInputs Signup
          \<lparr>a_username = ''ann'', a_password = ''pw1'', a_passwordConfirmation = ''pw2'', a_err = ''''\<rparr>)
   \<and> a_err (snd (validateInputs Signup
          \<lparr>a_username = ''ann'', a_password = ''pw1'', a_passwordConfirmation = ''pw2'', a_err = ''''\<rparr>))
       = ''Password and Password confirmation do not match''
   \<and> sr_calls (handleSubmit (\<lambda>c. Inr \<lparr>u_id = ''u1'', username = ''ann''\<rparr>) Signup
          \<lparr>a_username = ''ann'', a_password = ''pw1'', a_passwordConfirmation = ''pw2'', a_err = ''''\<rparr>)
       = [CreateUser ''ann'' ''pw1'']"
  using signup_submits_unconfirmed_password
    [of "\<lparr>a_username = ''ann'', a_password = ''pw1'', a_passwordConfirmation = ''pw2'', a_err = ''''\<rparr>"
        "\<lambda>c. Inr \<lparr>u_id = ''u1'', username = ''ann''\<rparr>"]
  by simp

section \<open>The users list follows the user updates\<close>

text \<open>
  Claim C10. On a \<open>userUpdate\<close> of type \<open>created\<close>, a list that already has the
  username keeps its length and has every entry of that username replaced by the
  payload's user, and otherwise gets the user at its front; on type \<open>deleted\<close> every
  entry of that username is removed; any other type throws and leaves the list as it was.
\<close>

theorem userUpdate_list_semantics:
  "(uu_type p = ''created'' \<and> (\<exists>c \<in> set xs. username c = username (uu_user p)) \<longrightarrow>
      fst (handleModifiedUserUpdate p xs) = None
      \<and> length (snd (handleModifiedUserUpdate p xs)) = length xs
      \<and> (\<forall>i < length xs.
            snd (handleModifiedUserUpdate p xs) ! i
              = (if username (xs ! i) = username (uu_user p) then uu_user p else xs ! i)))
   \<and> (uu_type p = ''created'' \<and> \<not> (\<exists>c \<in> set xs. username c = username (uu_user p)) \<longrightarrow>
      handleModifiedUserUpdate p xs = (None, uu_user p # xs))
   \<and> (uu_type p = ''deleted'' \<longrightarrow>
      fst (handleModifiedUserUpdate p xs) = None
      \<and> snd (handleModifiedUserUpdate p xs)
           = filter (\<lambda>c. username (uu_user p) \<noteq> username c) xs
      \<and> \<not> (\<exists>c \<in> set (snd (handleModifiedUserUpdate p xs)). username c = username (uu_user p)))
   \<and> (uu_type p \<noteq> ''created'' \<and> uu_type p \<noteq> ''deleted'' \<longrightarrow>
      handleModifiedUserUpdate p xs = (Some (JsError ''Error'' ''Invalid user update type''), xs))"
proof (intro conjI impI)
  assume a: "uu_type p = ''created'' \<and> (\<exists>c \<in> set xs. username c = username (uu_user p))"
  then have ex: "list_ex (\<lambda>c. username c = username (uu_user p)) xs"
    by (simp add: list_ex_iff)
  from a show "fst (handleModifiedUserUpdate p xs) = None"
    by (simp add: handleModifiedUserUpdate_def)
  from a ex show "length (snd (handleModifiedUserUpdate p xs)) = length xs"
    by (simp add: handleModifiedUserUpdate_def addUserToList_def)
  from a ex show "\<forall>i < length xs.
            snd (handleModifiedUserUpdate p xs) ! i
              = (if username (xs ! i) = username (uu_user p) then uu_user p else xs ! i)"
    by (simp add: handleModifiedUserUpdate_def addUserToList_def)
next
  assume "uu_type p = ''created'' \<and> \<not> (\<exists>c \<in> set xs. username c = username (uu_user p))"
  then show "handleModifiedUserUpdate p xs = (None, uu_user p # xs)"
    by (simp add: handleModifiedUserUpdate_def addUserToList_def list_ex_iff)
next
  assume d: "uu_type p = ''deleted''"
  then show "fst (handleModifiedUserUpdate p xs) = None"
    by (simp add: handleModifiedUserUpdate_def)
  from d show "snd (handleModifiedUserUpdate p xs) = filter (\<lambda>c. username (uu_user p) \<noteq> username c) xs"
    by (simp add: handleModifiedUserUpdate_def removeUserFromList_def)
  from d show "\<not> (\<exists>c \<in> set (snd (handleModifiedUserUpdate p xs)). username c = username (uu_user p))"
    by (auto simp: handleModifiedUserUpdate_def removeUserFromList_def)
next
  assume "uu_type p \<noteq> ''created'' \<and> uu_type p \<noteq> ''deleted''"
  then show "handleModifiedUserUpdate p xs = (Some (JsError ''Error'' ''Invalid user update type''), xs)"
    by (simp add: handleModifiedUserUpdate_def)
qed

theorem userUpdate_list_semantics_witness:
  "handleModifiedUserUpdate \<lparr>uu_user = ann2, uu_type = ''created''\<rparr> [bob, ann, ann]
      = (None, [bob, ann2, ann2])
   \<and> handleModifiedUserUpdate \<lparr>uu_user = ann2, uu_type = ''created''\<rparr> [bob]
      = (None, [ann2, bob])
   \<and> handleModifiedUserUpdate \<lparr>uu_user = ann2, uu_type = ''deleted''\<rparr> [ann, bob, ann]
      = (None, [bob])
   \<and> handleModifiedUserUpdate \<lparr>uu_user = ann2, uu_type = ''updated''\<rparr> [ann, bob]
      = (Some (JsError ''Error'' ''Invalid user update type''), [ann, bob])"
  using userUpdate_list_semantics [of "\<lparr>uu_user = ann2, uu_type = ''created''\<rparr>" "[bob, ann, ann]"]
    userUpdate_list_semantics [of "\<lparr>uu_user = ann2, uu_type = ''created''\<rparr>" "[bob]"]
    userUpdate_list_semantics [of "\<lparr>uu_user = ann2, uu_type = ''deleted''\<rparr>" "[ann, bob, ann]"]
    userUpdate_list_semantics [of "\<lparr>uu_user = ann2, uu_type = ''updated''\<rparr>" "[ann, bob]"]
  by (simp add: ann_def ann2_def bob_def handleModifiedUserUpdate_def addUserToList_def
      removeUserFromList_def)

end
